theory Spec2Isabelle
  imports Main "HOL-Library.AList"
begin

section \<open>Strings\<close>

text \<open>
  Go strings are byte sequences; they are modelled as \<open>string\<close> (a list of \<open>char\<close>, one
  per byte). The identifiers, annotation strings and SQL fragments that the program
  handles are ASCII, where a byte, a rune and a \<open>char\<close> coincide; the functions of
  packages \<open>strings\<close> and \<open>unicode\<close> are modelled on ASCII text.
\<close>

definition upper_letters :: string where
  "upper_letters = ''ABCDEFGHIJKLMNOPQRSTUVWXYZ''"

definition lower_letters :: string where
  "lower_letters = ''abcdefghijklmnopqrstuvwxyz''"

definition IsUpper :: "char \<Rightarrow> bool" where
  "IsUpper c = (c \<in> set upper_letters)"

definition IsLower :: "char \<Rightarrow> bool" where
  "IsLower c = (c \<in> set lower_letters)"

definition ToLower :: "char \<Rightarrow> char" where
  "ToLower c = (case map_of (zip upper_letters lower_letters) c of Some l \<Rightarrow> l | None \<Rightarrow> c)"

definition ToUpper :: "char \<Rightarrow> char" where
  "ToUpper c = (case map_of (zip lower_letters upper_letters) c of Some u \<Rightarrow> u | None \<Rightarrow> c)"

text \<open>\<open>unicode.IsSpace\<close> on ASCII: tab, line feed, vertical tab, form feed, carriage
  return and space.\<close>

definition IsSpace :: "char \<Rightarrow> bool" where
  "IsSpace c = (c \<in> {CHR 0x09, CHR 0x0A, CHR 0x0B, CHR 0x0C, CHR 0x0D, CHR '' ''})"

definition TrimSpace :: "string \<Rightarrow> string" where
  "TrimSpace s = rev (dropWhile IsSpace (rev (dropWhile IsSpace s)))"

text \<open>\<open>strings.Split(s, sep)\<close> for a separator of one byte. The result is never empty:
  a string without the separator gives the one-element list of itself.\<close>

fun Split :: "string \<Rightarrow> char \<Rightarrow> string list" where
  "Split [] sep = [[]]"
| "Split (c # cs) sep =
     (let r = Split cs sep in if c = sep then [] # r else (c # hd r) # tl r)"

text \<open>\<open>strings.SplitN(s, sep, 2)\<close>: cut at the first separator only.\<close>

definition SplitN2 :: "string \<Rightarrow> char \<Rightarrow> string list" where
  "SplitN2 s sep =
     (if sep \<in> set s then [takeWhile (\<lambda>c. c \<noteq> sep) s, tl (dropWhile (\<lambda>c. c \<noteq> sep) s)]
      else [s])"

fun HasPrefix :: "string \<Rightarrow> string \<Rightarrow> bool" where
  "HasPrefix s [] = True"
| "HasPrefix [] (p # ps) = False"
| "HasPrefix (c # cs) (p # ps) = (c = p \<and> HasPrefix cs ps)"

definition HasSuffix :: "string \<Rightarrow> string \<Rightarrow> bool" where
  "HasSuffix s suf = HasPrefix (rev s) (rev suf)"

fun Contains :: "string \<Rightarrow> string \<Rightarrow> bool" where
  "Contains [] sub = (sub = [])"
| "Contains (c # cs) sub = (HasPrefix (c # cs) sub \<or> Contains cs sub)"

text \<open>\<open>strings.Count(s, sub)\<close> for a non-empty \<open>sub\<close>: the number of non-overlapping
  occurrences, found from the left.\<close>

fun strings_Count_from :: "nat \<Rightarrow> string \<Rightarrow> string \<Rightarrow> nat" where
  "strings_Count_from skip [] sub = 0"
| "strings_Count_from skip (c # cs) sub =
     (if skip = 0 \<and> HasPrefix (c # cs) sub then Suc (strings_Count_from (length sub - 1) cs sub)
      else strings_Count_from (skip - 1) cs sub)"

definition strings_Count :: "string \<Rightarrow> string \<Rightarrow> nat" where
  "strings_Count s sub = strings_Count_from 0 s sub"

text \<open>\<open>strings.Index(s, sub)\<close>: the offset of the first occurrence, if any.\<close>

fun strings_Index :: "string \<Rightarrow> string \<Rightarrow> nat option" where
  "strings_Index [] sub = (if sub = [] then Some 0 else None)"
| "strings_Index (c # cs) sub =
     (if HasPrefix (c # cs) sub then Some 0 else map_option Suc (strings_Index cs sub))"

fun strings_Join :: "string list \<Rightarrow> string \<Rightarrow> string" where
  "strings_Join [] sep = []"
| "strings_Join [x] sep = x"
| "strings_Join (x # y # ys) sep = x @ sep @ strings_Join (y # ys) sep"

text \<open>\<open>strings.Fields\<close>: the maximal runs of non-space bytes.\<close>

fun Fields_acc :: "string \<Rightarrow> string \<Rightarrow> string list" where
  "Fields_acc cur [] = (if cur = [] then [] else [rev cur])"
| "Fields_acc cur (c # cs) =
     (if IsSpace c then (if cur = [] then Fields_acc [] cs else rev cur # Fields_acc [] cs)
      else Fields_acc (c # cur) cs)"

definition strings_Fields :: "string \<Rightarrow> string list" where
  "strings_Fields s = Fields_acc [] s"

text \<open>\<open>fmt.Sprintf("%d", n)\<close>: the decimal digits of an integer, with a minus sign for a
  negative one.\<close>

definition digit_char :: "nat \<Rightarrow> char" where
  "digit_char d = ''0123456789'' ! d"

fun digits_fuel :: "nat \<Rightarrow> nat \<Rightarrow> string \<Rightarrow> string" where
  "digits_fuel 0 n acc = acc"
| "digits_fuel (Suc k) n acc =
     (if n < 10 then digit_char n # acc
      else digits_fuel k (n div 10) (digit_char (n mod 10) # acc))"

definition nat_decimal :: "nat \<Rightarrow> string" where
  "nat_decimal n = digits_fuel (Suc n) n []"

definition Sprintf_d :: "int \<Rightarrow> string" where
  "Sprintf_d i = (if i < 0 then CHR ''-'' # nat_decimal (nat (- i)) else nat_decimal (nat i))"

section \<open>Naming converter\<close>

text \<open>
  \<open>ToSnakeCase\<close> walks the string with the byte offset \<open>i\<close> of each rune, the text written
  so far and the flag \<open>prevLower\<close>. The second test of the loop body reads the two
  preceding bytes \<open>s[i-1]\<close> and \<open>s[i-2]\<close> and rewrites the last byte written.
\<close>

fun ToSnakeCase_loop :: "string \<Rightarrow> nat \<Rightarrow> string \<Rightarrow> bool \<Rightarrow> string \<Rightarrow> string" where
  "ToSnakeCase_loop s i result prevLower [] = result"
| "ToSnakeCase_loop s i result prevLower (r # rest) =
     (let isLower = IsLower r;
          result1 = (if 0 < i \<and> \<not> isLower \<and> prevLower then result @ ''_'' else result);
          result2 =
            (if 0 < i \<and> isLower \<and> 1 < i \<and> \<not> prevLower \<and> IsUpper (s ! (i - 1)) \<and> 2 < i
                \<and> IsUpper (s ! (i - 2))
             then butlast result1 @ ''_'' @ [ToLower (s ! (i - 1))]
             else result1)
      in ToSnakeCase_loop s (Suc i) (result2 @ [ToLower r]) isLower rest)"

definition ToSnakeCase :: "string \<Rightarrow> string" where
  "ToSnakeCase s = (if s = [] then [] else ToSnakeCase_loop s 0 [] False s)"

section \<open>Tag parser\<close>

fun HasTagOption_loop :: "string list \<Rightarrow> string \<Rightarrow> bool" where
  "HasTagOption_loop [] option = False"
| "HasTagOption_loop (part # parts) option =
     (if TrimSpace part = option then True else HasTagOption_loop parts option)"

definition HasTagOption :: "string \<Rightarrow> string \<Rightarrow> bool" where
  "HasTagOption tag option = HasTagOption_loop (Split tag (CHR '';'')) option"

text \<open>\<open>ParseTagSettings\<close> builds a Go map; it is modelled as an association list that is
  updated in place (\<open>AList.update\<close>), so that a repeated key keeps its last value.\<close>

fun ParseTagSettings_loop :: "string list \<Rightarrow> (string \<times> string) list \<Rightarrow> (string \<times> string) list" where
  "ParseTagSettings_loop [] settings = settings"
| "ParseTagSettings_loop (part0 # parts) settings =
     (let part = TrimSpace part0 in
      if part = [] then ParseTagSettings_loop parts settings
      else
        let keyValue = SplitN2 part (CHR '':'');
            key = TrimSpace (hd keyValue)
        in if key = [] then ParseTagSettings_loop parts settings
           else
             let val = (if 1 < length keyValue then TrimSpace (keyValue ! 1) else [])
             in ParseTagSettings_loop parts (AList.update key val settings))"

definition ParseTagSettings :: "string \<Rightarrow> (string \<times> string) list" where
  "ParseTagSettings tag = ParseTagSettings_loop (Split tag (CHR '';'')) []"

section \<open>Types and values seen through reflection\<close>

text \<open>
  The metadata engine reads a model through package \<open>reflect\<close>. The part of Go's type
  system that it can observe is modelled by a datatype of types (three basic kinds,
  pointers and named struct types with their fields) and a datatype of values. A struct
  tag is kept as the list of its \<open>key:"value"\<close> pairs, so that \<open>Tag.Lookup\<close> is a lookup
  in that list. A type is finite, so a struct type that embeds a pointer to itself (on
  which \<open>ExtractFields\<close> would not return) is outside the model.
\<close>

type_synonym StructTag = "(string \<times> string) list"

datatype gotype = TBool | TInt | TString | TPtr gotype | TStruct string "sfield list"
and sfield =
  SField (sf_Name: string) (sf_PkgPath: string) (sf_Anonymous: bool) (sf_Tag: StructTag)
    (sf_Type: gotype)

text \<open>A value of interface type: \<open>VNil\<close> is the nil interface, \<open>VPtr t None\<close> a nil pointer
  of type \<open>*t\<close>, \<open>VStruct t vs\<close> a struct of type \<open>t\<close> with the field values \<open>vs\<close>.\<close>

datatype goval =
  VNil | VBool bool | VInt int | VString string | VPtr gotype "goval option"
  | VStruct gotype "goval list"

datatype error = ModelError string | InternalError string | Panic string

definition TagKey :: string where
  "TagKey = ''origami''"

text \<open>\<open>TypeOf\<close> panics on the nil interface.\<close>

fun TypeOf :: "goval \<Rightarrow> error + gotype" where
  "TypeOf VNil = Inl (Panic ''nil value passed to TypeOf'')"
| "TypeOf (VBool b) = Inr TBool"
| "TypeOf (VInt i) = Inr TInt"
| "TypeOf (VString s) = Inr TString"
| "TypeOf (VPtr t v) = Inr (TPtr t)"
| "TypeOf (VStruct t vs) = Inr t"

fun IndirectType :: "gotype \<Rightarrow> gotype" where
  "IndirectType (TPtr t) = IndirectType t"
| "IndirectType t = t"

fun is_struct :: "gotype \<Rightarrow> bool" where
  "is_struct (TStruct n fs) = True"
| "is_struct t = False"

fun struct_fields :: "gotype \<Rightarrow> sfield list" where
  "struct_fields (TStruct n fs) = fs"
| "struct_fields t = []"

fun type_Name :: "gotype \<Rightarrow> string" where
  "type_Name (TStruct n fs) = n"
| "type_Name TBool = ''bool''"
| "type_Name TInt = ''int''"
| "type_Name TString = ''string''"
| "type_Name (TPtr t) = []"

text \<open>
  A \<open>reflect.Value\<close>: the value it holds and the flags the engine depends on.
  \<open>flagAddr\<close> is set by \<open>Elem\<close> on a pointer and inherited by \<open>Field\<close>; a value made by
  \<open>reflect.ValueOf\<close> never has it. The two read-only flags mark a value reached through
  an unexported field (\<open>flagEmbedRO\<close> for an embedded one, which \<open>Field\<close> does not pass on,
  \<open>flagStickyRO\<close> for any other, which it does): \<open>Interface\<close> panics on such a value and
  \<open>CanSet\<close> is false.
\<close>

record Value =
  rv_val :: goval
  flagAddr :: bool
  flagStickyRO :: bool
  flagEmbedRO :: bool

definition flagRO :: "Value \<Rightarrow> bool" where
  "flagRO v = (flagStickyRO v \<or> flagEmbedRO v)"

definition ValueOf :: "goval \<Rightarrow> error + Value" where
  "ValueOf v =
     (if v = VNil then Inl (InternalError ''nil value passed to ValueOf'')
      else Inr \<lparr>rv_val = v, flagAddr = False, flagStickyRO = False, flagEmbedRO = False\<rparr>)"

definition CanAddr :: "Value \<Rightarrow> bool" where
  "CanAddr v = flagAddr v"

definition CanSet :: "Value \<Rightarrow> bool" where
  "CanSet v = (flagAddr v \<and> \<not> flagRO v)"

text \<open>\<open>Elem\<close> of a non-nil pointer: the value pointed to, addressable.\<close>

definition Elem :: "Value \<Rightarrow> goval \<Rightarrow> Value" where
  "Elem v w = v\<lparr>rv_val := w, flagAddr := True\<rparr>"

text \<open>\<open>IndirectValue\<close>: follow pointers while they are not nil.\<close>

fun IndirectValue_val :: "goval \<Rightarrow> bool \<Rightarrow> goval \<times> bool" where
  "IndirectValue_val (VPtr t (Some w)) addr = IndirectValue_val w True"
| "IndirectValue_val w addr = (w, addr)"

definition IndirectValue :: "Value \<Rightarrow> Value" where
  "IndirectValue v =
     (case IndirectValue_val (rv_val v) (flagAddr v) of
        (w, a) \<Rightarrow> v\<lparr>rv_val := w, flagAddr := a\<rparr>)"

fun is_struct_val :: "goval \<Rightarrow> bool" where
  "is_struct_val (VStruct t vs) = True"
| "is_struct_val v = False"

text \<open>\<open>Value.Field(x)\<close> panics unless the value is a struct with more than \<open>x\<close> fields.\<close>

definition Field :: "Value \<Rightarrow> nat \<Rightarrow> error + Value" where
  "Field v x =
     (case rv_val v of
        VStruct t vs \<Rightarrow>
          (if x < length vs \<and> x < length (struct_fields t)
           then let sf = struct_fields t ! x in
             Inr \<lparr>rv_val = vs ! x, flagAddr = flagAddr v,
                  flagStickyRO = (flagStickyRO v \<or> (sf_PkgPath sf \<noteq> [] \<and> \<not> sf_Anonymous sf)),
                  flagEmbedRO = (sf_PkgPath sf \<noteq> [] \<and> sf_Anonymous sf)\<rparr>
           else Inl (Panic ''reflect: Field index out of range''))
      | _ \<Rightarrow> Inl (Panic ''reflect: call of reflect.Value.Field on non-struct Value''))"

text \<open>\<open>Value.FieldByIndex\<close>: an index of length one is a plain \<open>Field\<close>; otherwise the
  value must be a struct and, after the first step, a pointer to a struct is followed
  (a nil one panics) before the next field is taken.\<close>

fun FieldByIndex_loop :: "bool \<Rightarrow> Value \<Rightarrow> nat list \<Rightarrow> error + Value" where
  "FieldByIndex_loop first v [] = Inr v"
| "FieldByIndex_loop first v (x # xs) =
     (case (if first then Inr v
            else (case rv_val v of
                    VPtr t None \<Rightarrow>
                      (if is_struct t
                       then Inl (Panic ''reflect: indirection through nil pointer to embedded struct'')
                       else Inr v)
                  | VPtr t (Some w) \<Rightarrow> (if is_struct t then Inr (Elem v w) else Inr v)
                  | _ \<Rightarrow> Inr v)) of
        Inl e \<Rightarrow> Inl e
      | Inr v1 \<Rightarrow> (case Field v1 x of Inl e \<Rightarrow> Inl e | Inr v2 \<Rightarrow> FieldByIndex_loop False v2 xs))"

definition FieldByIndex :: "Value \<Rightarrow> nat list \<Rightarrow> error + Value" where
  "FieldByIndex v index =
     (if length index = 1 then Field v (hd index)
      else if \<not> is_struct_val (rv_val v)
      then Inl (Panic ''reflect: call of reflect.Value.FieldByIndex on non-struct Value'')
      else FieldByIndex_loop True v index)"


section \<open>Model metadata engine\<close>

text \<open>
  \<open>FieldInfo\<close> with the attributes that some function of the engine reads. \<open>Size\<close>,
  \<open>Precision\<close>, \<open>Scale\<close>, \<open>Default\<close> and \<open>Referenced\<close> are written once by \<open>ExtractFields\<close>
  from \<open>TagSettings\<close> and read nowhere; they are left out.
\<close>

record FieldInfo =
  Name :: string
  DBName :: string
  Type :: gotype
  Index :: "nat list"
  IsAnonymous :: bool
  IsPrimaryKey :: bool
  IsAutoIncrement :: bool
  IsUnique :: bool
  IsIndex :: bool
  IsNotNull :: bool
  RawTag :: StructTag
  TagSettings :: "(string \<times> string) list"
  IsIgnored :: bool
  IsReadOnly :: bool
  IsWriteOnly :: bool

text \<open>
  The engine hands out pointers to \<open>FieldInfo\<close> objects and keeps the same pointers in
  its cache, so the objects live in a store: \<open>objs\<close> holds them, a pointer is an index
  into it, and allocation appends. \<open>fieldCache\<close> is the package-level map from a type to
  its map from field name to pointer. Go maps are association lists here, updated in
  place; ranging over one visits the entries in list order, which is one of the orders
  that Go may choose.
\<close>

record rstate =
  objs :: "FieldInfo list"
  fieldCache :: "(gotype \<times> (string \<times> nat) list) list"

definition alloc :: "FieldInfo \<Rightarrow> rstate \<Rightarrow> nat \<times> rstate" where
  "alloc fi st = (length (objs st), st\<lparr>objs := objs st @ [fi]\<rparr>)"

definition ClearCache :: "rstate \<Rightarrow> rstate" where
  "ClearCache st = st\<lparr>fieldCache := []\<rparr>"

text \<open>The cache-hit branch: every cached descriptor is cloned, except the embedded
  ones when a prefix is set.\<close>

fun clone_cached :: "(string \<times> nat) list \<Rightarrow> string \<Rightarrow> nat list \<Rightarrow> rstate \<Rightarrow> nat list \<times> rstate" where
  "clone_cached [] prefix copies st = (copies, st)"
| "clone_cached ((name, field) # rest) prefix copies st =
     (if prefix \<noteq> [] \<and> IsAnonymous (objs st ! field) then clone_cached rest prefix copies st
      else case alloc (objs st ! field) st of
             (fieldCopy, st1) \<Rightarrow> clone_cached rest prefix (copies @ [fieldCopy]) st1)"

text \<open>The merge of an embedded struct's descriptors into the parent's: a descriptor whose
  name the parent's \<open>fieldMap\<close> already has is skipped; the others get the embedded
  field's position put in front of their \<open>Index\<close>, in the object itself.\<close>

fun merge_embedded ::
  "nat list \<Rightarrow> nat \<Rightarrow> nat list \<Rightarrow> (string \<times> nat) list \<Rightarrow> rstate
     \<Rightarrow> nat list \<times> (string \<times> nat) list \<times> rstate" where
  "merge_embedded [] i structFields fieldMap st = (structFields, fieldMap, st)"
| "merge_embedded (ef # efs) i structFields fieldMap st =
     (if map_of fieldMap (Name (objs st ! ef)) = None
      then let obj = objs st ! ef;
               st1 = st\<lparr>objs := (objs st)[ef := obj\<lparr>Index := i # Index obj\<rparr>]\<rparr>
           in merge_embedded efs i (structFields @ [ef])
                (AList.update (Name obj) ef fieldMap) st1
      else merge_embedded efs i structFields fieldMap st)"

text \<open>The tag processing of one field (the block under \<open>sf.Tag.Lookup(TagKey)\<close>).\<close>

definition apply_tag :: "string \<Rightarrow> FieldInfo \<Rightarrow> FieldInfo" where
  "apply_tag tag fi =
     (let settings = ParseTagSettings tag;
          fi1 = fi\<lparr>TagSettings := settings\<rparr>;
          fi2 = (case map_of settings ''column'' of
                   Some name \<Rightarrow> (if name \<noteq> [] then fi1\<lparr>DBName := name\<rparr> else fi1)
                 | None \<Rightarrow> fi1)
      in fi2\<lparr>IsPrimaryKey := HasTagOption tag ''primary_key'' \<or> HasTagOption tag ''primaryKey'',
              IsAutoIncrement := HasTagOption tag ''auto_increment'' \<or> HasTagOption tag ''autoIncrement'',
              IsUnique := HasTagOption tag ''unique'',
              IsIndex := HasTagOption tag ''index'',
              IsNotNull := HasTagOption tag ''not_null'' \<or> HasTagOption tag ''notNull'',
              IsIgnored := HasTagOption tag ''-'' \<or> HasTagOption tag ''ignore'',
              IsReadOnly := HasTagOption tag ''readonly'' \<or> HasTagOption tag ''readOnly'',
              IsWriteOnly := HasTagOption tag ''writeonly'' \<or> HasTagOption tag ''writeOnly''\<rparr>)"

definition new_FieldInfo :: "sfield \<Rightarrow> nat \<Rightarrow> FieldInfo" where
  "new_FieldInfo sf i =
     \<lparr>Name = sf_Name sf, DBName = ToSnakeCase (sf_Name sf), Type = sf_Type sf, Index = [i],
      IsAnonymous = sf_Anonymous sf, IsPrimaryKey = False, IsAutoIncrement = False,
      IsUnique = False, IsIndex = False, IsNotNull = False, RawTag = sf_Tag sf,
      TagSettings = [], IsIgnored = False, IsReadOnly = False, IsWriteOnly = False\<rparr>"

lemma size_IndirectType: "size (IndirectType t) \<le> size t"
  by (induction t rule: IndirectType.induct) auto

lemma size_struct_fields: "is_struct t \<Longrightarrow> size_list size (struct_fields t) < size t"
  by (cases t) auto

text \<open>
  \<open>ExtractFieldsT t prefix\<close> is \<open>ExtractFields(model, prefix)\<close> for a model of type \<open>t\<close>
  (the function reads nothing of the model but its type); \<open>ExtractFields_loop\<close> is the
  loop over the struct's fields, from field \<open>i\<close> on. The recursive call for an embedded
  struct passes the zero value of the field's dereferenced type.
\<close>

function
  ExtractFieldsT :: "gotype \<Rightarrow> string \<Rightarrow> rstate \<Rightarrow> (error + nat list) \<times> rstate" and
  ExtractFields_loop ::
    "sfield list \<Rightarrow> nat \<Rightarrow> string \<Rightarrow> nat list \<Rightarrow> (string \<times> nat) list \<Rightarrow> rstate
       \<Rightarrow> (error + nat list \<times> (string \<times> nat) list) \<times> rstate"
where
  "ExtractFieldsT t prefix st =
     (let modelType = IndirectType t in
      if \<not> is_struct modelType then (Inl (ModelError ''model must be a struct''), st)
      else case map_of (fieldCache st) modelType of
             Some cachedFields \<Rightarrow>
               (case clone_cached cachedFields prefix [] st of (copies, st1) \<Rightarrow> (Inr copies, st1))
           | None \<Rightarrow>
               (case ExtractFields_loop (struct_fields modelType) 0 prefix [] [] st of
                  (Inl err, st1) \<Rightarrow> (Inl err, st1)
                | (Inr (structFields, fieldMap), st1) \<Rightarrow>
                    (Inr structFields,
                     st1\<lparr>fieldCache := AList.update modelType fieldMap (fieldCache st1)\<rparr>)))"
| "ExtractFields_loop [] i prefix structFields fieldMap st = (Inr (structFields, fieldMap), st)"
| "ExtractFields_loop (sf # rest) i prefix structFields fieldMap st =
     (if sf_PkgPath sf \<noteq> [] \<and> \<not> sf_Anonymous sf
      then ExtractFields_loop rest (Suc i) prefix structFields fieldMap st
      else if sf_Anonymous sf \<and> is_struct (IndirectType (sf_Type sf))
      then (if sf_PkgPath sf \<noteq> []
            then ExtractFields_loop rest (Suc i) prefix structFields fieldMap st
            else let embeddedPrefix =
                       (if prefix = [] then sf_Name sf else prefix @ ''.'' @ sf_Name sf)
                 in case ExtractFieldsT (IndirectType (sf_Type sf)) embeddedPrefix st of
                      (Inl err, st1) \<Rightarrow> (Inl err, st1)
                    | (Inr embeddedFields, st1) \<Rightarrow>
                        (case merge_embedded embeddedFields i structFields fieldMap st1 of
                           (structFields1, fieldMap1, st2) \<Rightarrow>
                             ExtractFields_loop rest (Suc i) prefix structFields1 fieldMap1 st2))
      else let fi0 = new_FieldInfo sf i;
               fi = (case map_of (sf_Tag sf) TagKey of Some tag \<Rightarrow> apply_tag tag fi0
                     | None \<Rightarrow> fi0)
           in case alloc fi st of
                (p, st1) \<Rightarrow>
                  ExtractFields_loop rest (Suc i) prefix (structFields @ [p])
                    (AList.update (Name fi) p fieldMap) st1)"
  by pat_completeness auto
termination
proof (relation "measure (\<lambda>x. case x of
                     Inl (t, prefix, st) \<Rightarrow> 2 * size t
                   | Inr (fs, i, prefix, structFields, fieldMap, st) \<Rightarrow> 2 * size_list size fs + 1)",
       goal_cases)
  case 1
  show ?case by simp
next
  case (2 t prefix st modelType)
  have "size_list size (struct_fields (IndirectType t)) < size (IndirectType t)"
    using 2 by (simp add: size_struct_fields)
  also have "\<dots> \<le> size t" by (rule size_IndirectType)
  finally show ?case using 2 by simp
next
  case (3 sf rest i prefix structFields fieldMap st)
  show ?case by simp
next
  case (4 sf rest i prefix structFields fieldMap st)
  show ?case by simp
next
  case (5 sf rest i prefix structFields fieldMap st embeddedPrefix)
  have "size (IndirectType (sf_Type sf)) \<le> size (sf_Type sf)" by (rule size_IndirectType)
  moreover have "size (sf_Type sf) < size sf" by (cases sf) simp
  ultimately show ?case by simp
next
  case 6
  then show ?case by simp
next
  case 7
  then show ?case by simp
qed

definition ExtractFields :: "goval \<Rightarrow> string \<Rightarrow> rstate \<Rightarrow> (error + nat list) \<times> rstate" where
  "ExtractFields model prefix st =
     (case TypeOf model of Inl err \<Rightarrow> (Inl err, st) | Inr t \<Rightarrow> ExtractFieldsT t prefix st)"

declare ExtractFieldsT.simps [simp del]

text \<open>
  \<open>ModelInfo\<close>. Its maps hold the pointers that \<open>ExtractFields\<close> returned. The attributes
  that share a name with one of \<open>FieldInfo\<close> carry the prefix \<open>mi_\<close>.
\<close>

record ModelInfo =
  mi_Name :: string
  mi_Type :: gotype
  mi_DBName :: string
  Fields :: "(string \<times> nat) list"
  FieldsByDBName :: "(string \<times> nat) list"
  PrimaryKey :: "string list"
  AutoIncrement :: string
  Indexes :: "(string \<times> string list) list"
  UniqueIndexes :: "(string \<times> string list) list"
  mi_TagSettings :: "(string \<times> string) list"

text \<open>\<open>Type.FieldByName\<close>, on the fields that the struct declares itself (the search of
  \<open>reflect\<close> through embedded structs for a promoted field is not modelled).\<close>

definition FieldByName :: "gotype \<Rightarrow> string \<Rightarrow> sfield option" where
  "FieldByName t name = find (\<lambda>sf. sf_Name sf = name) (struct_fields t)"

definition lookup_or_empty :: "(string \<times> 'a list) list \<Rightarrow> string \<Rightarrow> 'a list" where
  "lookup_or_empty m k = (case map_of m k of Some v \<Rightarrow> v | None \<Rightarrow> [])"

text \<open>The body of the loop of \<open>ExtractModelInfo\<close> over the descriptors, one definition
  for each of its five steps.\<close>

definition add_field :: "nat \<Rightarrow> FieldInfo \<Rightarrow> ModelInfo \<Rightarrow> ModelInfo" where
  "add_field field f info =
     info\<lparr>Fields := AList.update (Name f) field (Fields info),
          FieldsByDBName := AList.update (DBName f) field (FieldsByDBName info)\<rparr>"

definition add_primary_key :: "FieldInfo \<Rightarrow> ModelInfo \<Rightarrow> ModelInfo" where
  "add_primary_key f info =
     (if IsPrimaryKey f then info\<lparr>PrimaryKey := PrimaryKey info @ [Name f]\<rparr> else info)"

definition add_auto_increment :: "FieldInfo \<Rightarrow> ModelInfo \<Rightarrow> ModelInfo" where
  "add_auto_increment f info = (if IsAutoIncrement f then info\<lparr>AutoIncrement := Name f\<rparr> else info)"

definition index_name :: "string \<Rightarrow> string \<Rightarrow> FieldInfo \<Rightarrow> ModelInfo \<Rightarrow> string" where
  "index_name key pre f info =
     (if lookup_or_empty (TagSettings f) key = [] then pre @ mi_DBName info @ ''_'' @ DBName f
      else lookup_or_empty (TagSettings f) key)"

definition add_index :: "FieldInfo \<Rightarrow> ModelInfo \<Rightarrow> ModelInfo" where
  "add_index f info =
     (if IsIndex f
      then info\<lparr>Indexes :=
             AList.update (index_name ''index'' ''idx_'' f info)
               (lookup_or_empty (Indexes info) (index_name ''index'' ''idx_'' f info) @ [DBName f])
               (Indexes info)\<rparr>
      else info)"

definition add_unique_index :: "FieldInfo \<Rightarrow> ModelInfo \<Rightarrow> ModelInfo" where
  "add_unique_index f info =
     (if IsUnique f
      then info\<lparr>UniqueIndexes :=
             AList.update (index_name ''uniqueIndex'' ''udx_'' f info)
               (lookup_or_empty (UniqueIndexes info) (index_name ''uniqueIndex'' ''udx_'' f info)
                  @ [DBName f])
               (UniqueIndexes info)\<rparr>
      else info)"

definition add_descriptor :: "nat \<Rightarrow> FieldInfo \<Rightarrow> ModelInfo \<Rightarrow> ModelInfo" where
  "add_descriptor field f info =
     add_unique_index f (add_index f (add_auto_increment f (add_primary_key f
       (add_field field f info))))"

fun ExtractModelInfo_loop :: "nat list \<Rightarrow> rstate \<Rightarrow> ModelInfo \<Rightarrow> ModelInfo" where
  "ExtractModelInfo_loop [] st info = info"
| "ExtractModelInfo_loop (field # rest) st info =
     ExtractModelInfo_loop rest st (add_descriptor field (objs st ! field) info)"

definition struct_level_tag :: "gotype \<Rightarrow> ModelInfo \<Rightarrow> ModelInfo" where
  "struct_level_tag modelType info =
     (case FieldByName modelType ''origami'' of
        None \<Rightarrow> info
      | Some structTag \<Rightarrow>
          (case map_of (sf_Tag structTag) TagKey of
             None \<Rightarrow> info
           | Some tag \<Rightarrow>
               let info1 = info\<lparr>mi_TagSettings := ParseTagSettings tag\<rparr> in
               (case map_of (mi_TagSettings info1) ''table'' of
                  Some table \<Rightarrow> (if table \<noteq> [] then info1\<lparr>mi_DBName := table\<rparr> else info1)
                | None \<Rightarrow> info1)))"

definition ExtractModelInfo :: "goval \<Rightarrow> rstate \<Rightarrow> (error + ModelInfo) \<times> rstate" where
  "ExtractModelInfo model st =
     (case TypeOf model of
        Inl err \<Rightarrow> (Inl err, st)
      | Inr t \<Rightarrow>
          let modelType = IndirectType t in
          if \<not> is_struct modelType then (Inl (ModelError ''model must be a struct''), st)
          else
            let info0 = \<lparr>mi_Name = type_Name modelType, mi_Type = modelType,
                         mi_DBName = ToSnakeCase (type_Name modelType), Fields = [],
                         FieldsByDBName = [], PrimaryKey = [], AutoIncrement = [],
                         Indexes = [], UniqueIndexes = [], mi_TagSettings = []\<rparr>;
                info = struct_level_tag modelType info0
            in case ExtractFields model [] st of
                 (Inl err, st1) \<Rightarrow> (Inl err, st1)
               | (Inr flds, st1) \<Rightarrow> (Inr (ExtractModelInfo_loop flds st1 info), st1))"

subsection \<open>Reading and writing a record's values\<close>






text \<open>
  The rules of \<open>reflect\<close> for \<open>Type.AssignableTo\<close>, \<open>Type.ConvertibleTo\<close> and \<open>Value.Convert\<close>
  are parameters of \<open>SetFieldValues\<close>: what is proved of it holds for any such rules.
\<close>

record reflect_rules =
  AssignableTo :: "gotype \<Rightarrow> gotype \<Rightarrow> bool"
  ConvertibleTo :: "gotype \<Rightarrow> gotype \<Rightarrow> bool"
  Convert :: "goval \<Rightarrow> gotype \<Rightarrow> goval"

text \<open>\<open>Value.Set\<close> on the field reached by an index path writes into the model that the
  caller's pointer refers to: \<open>store_field\<close> gives the model after the write.\<close>

fun store_field :: "goval \<Rightarrow> nat list \<Rightarrow> goval \<Rightarrow> goval" where
  "store_field (VPtr t (Some w)) (x # xs) new = VPtr t (Some (store_field w (x # xs) new))"
| "store_field (VStruct t vs) (x # xs) new =
     VStruct t (vs[x := store_field (vs ! x) xs new])"
| "store_field v [] new = new"
| "store_field v (x # xs) new = v"

text \<open>The loop of \<open>SetFieldValues\<close> over the supplied mapping. It returns the error, if
  any, and the model as the writes made so far leave it.\<close>

fun SetFieldValues_loop ::
  "reflect_rules \<Rightarrow> (string \<times> goval) list \<Rightarrow> ModelInfo \<Rightarrow> rstate \<Rightarrow> Value \<Rightarrow> goval
     \<Rightarrow> error option \<times> goval" where
  "SetFieldValues_loop R [] mi st modelValue0 model = (None, model)"
| "SetFieldValues_loop R ((dbName, val) # rest) mi st modelValue0 model =
     (case map_of (FieldsByDBName mi) dbName of
        None \<Rightarrow> SetFieldValues_loop R rest mi st modelValue0 model
      | Some field \<Rightarrow>
          let f = objs st ! field in
          if IsIgnored f \<or> IsWriteOnly f then SetFieldValues_loop R rest mi st modelValue0 model
          else
            let modelValue = IndirectValue (modelValue0\<lparr>rv_val := model\<rparr>) in
            (case FieldByIndex modelValue (Index f) of
               Inl err \<Rightarrow> (Some err, model)
             | Inr fieldValue \<Rightarrow>
                 if CanAddr fieldValue \<and> CanSet fieldValue
                 then (case TypeOf val of
                         Inl err \<Rightarrow> (Some (Panic ''reflect: call of reflect.Value.Type on zero Value''), model)
                       | Inr sourceType \<Rightarrow>
                           (case TypeOf (rv_val fieldValue) of
                              Inl err \<Rightarrow> (Some err, model)
                            | Inr fieldType \<Rightarrow>
                                if AssignableTo R sourceType fieldType
                                then SetFieldValues_loop R rest mi st modelValue0
                                       (store_field model (Index f) val)
                                else if ConvertibleTo R sourceType fieldType
                                then SetFieldValues_loop R rest mi st modelValue0
                                       (store_field model (Index f) (Convert R val fieldType))
                                else (Some (ModelError ''cannot set field value: incompatible types''),
                                      model)))
                 else SetFieldValues_loop R rest mi st modelValue0 model))"

definition SetFieldValues ::
  "reflect_rules \<Rightarrow> goval \<Rightarrow> (string \<times> goval) list \<Rightarrow> rstate
     \<Rightarrow> (error option \<times> goval) \<times> rstate" where
  "SetFieldValues R model vals st =
     (case ExtractModelInfo model st of
        (Inl err, st1) \<Rightarrow> ((Some err, model), st1)
      | (Inr mi, st1) \<Rightarrow>
          (case ValueOf model of
             Inl err \<Rightarrow> ((Some err, model), st1)
           | Inr modelValue \<Rightarrow>
               if \<not> CanAddr modelValue
               then ((Some (InternalError ''model must be addressable (a pointer)''), model), st1)
               else (SetFieldValues_loop R vals mi st1 modelValue model, st1)))"

section \<open>SQL builder\<close>

subsection \<open>Dialects\<close>

text \<open>
  The interface \<open>Dialect\<close> is a record of the capabilities that the builder's mutating
  methods call; the three implementations are three values of it. The formatting
  capabilities that no such method calls (\<open>EscapeLike\<close>, \<open>FormatBool\<close>, \<open>FormatTime\<close>,
  \<open>DriverName\<close>) are left out. \<open>int64\<close> limits and offsets are integers: they are only
  compared with zero and printed.
\<close>

record Dialect =
  d_Placeholder :: "int \<Rightarrow> string"
  d_Quote :: "string \<Rightarrow> string"
  d_LimitOffset :: "int \<Rightarrow> int \<Rightarrow> string"
  d_InsertReturning :: "string \<Rightarrow> string \<Rightarrow> string"
  d_SupportUpsert :: bool

definition quote_with :: "string \<Rightarrow> string \<Rightarrow> string" where
  "quote_with q identifier =
     (if Contains identifier ''.''
      then strings_Join (map (\<lambda>part. q @ part @ q) (Split identifier (CHR ''.''))) ''.''
      else q @ identifier @ q)"

definition limit_offset_standard :: "int \<Rightarrow> int \<Rightarrow> string" where
  "limit_offset_standard limit offset =
     (if 0 \<le> limit then '' LIMIT '' @ Sprintf_d limit else [])
     @ (if 0 \<le> offset then '' OFFSET '' @ Sprintf_d offset else [])"

definition PostgresDialect :: Dialect where
  "PostgresDialect =
     \<lparr>d_Placeholder = (\<lambda>pos. ''$'' @ Sprintf_d pos),
      d_Quote = quote_with [CHR 0x22],
      d_LimitOffset = limit_offset_standard,
      d_InsertReturning = (\<lambda>query pkColumn. '' RETURNING '' @ quote_with [CHR 0x22] pkColumn),
      d_SupportUpsert = True\<rparr>"

definition MySQLDialect :: Dialect where
  "MySQLDialect =
     \<lparr>d_Placeholder = (\<lambda>pos. ''?''),
      d_Quote = quote_with ''`'',
      d_LimitOffset = (\<lambda>limit offset.
         if 0 \<le> limit
         then (if 0 \<le> offset then '' LIMIT '' @ Sprintf_d offset @ '', '' @ Sprintf_d limit
               else '' LIMIT '' @ Sprintf_d limit)
         else if 0 \<le> offset then '' LIMIT '' @ Sprintf_d offset @ '', 18446744073709551615''
         else []),
      d_InsertReturning = (\<lambda>query pkColumn. []),
      d_SupportUpsert = True\<rparr>"

definition SQLiteDialect :: Dialect where
  "SQLiteDialect =
     \<lparr>d_Placeholder = (\<lambda>pos. ''?''),
      d_Quote = quote_with [CHR 0x22],
      d_LimitOffset = limit_offset_standard,
      d_InsertReturning = (\<lambda>query pkColumn. []),
      d_SupportUpsert = True\<rparr>"

subsection \<open>Slices and their backing arrays\<close>

text \<open>
  The builder keeps its arguments in a Go slice, and \<open>Args\<close> hands a slice to the caller,
  so slices are modelled with their backing arrays in a store. A slice is the address of
  its array, a length and a capacity (every slice of the builder starts at the first
  element of its array). The store maps an address to the array's elements, as many as
  its capacity, and allocates at \<open>next_addr\<close>. An argument is a value of interface type,
  a \<open>goval\<close>; spare capacity holds \<open>VNil\<close>. When \<open>append\<close> has to grow the array it takes the
  larger of the length needed and twice the old capacity (Go leaves the growth to the
  runtime; nothing below depends on it).
\<close>

record slice =
  s_array :: nat
  s_len :: nat
  s_cap :: nat

record heap =
  arrays :: "nat \<Rightarrow> goval list"
  next_addr :: nat

definition empty_heap :: heap where
  "empty_heap = \<lparr>arrays = (\<lambda>a. []), next_addr = 0\<rparr>"

definition slice_read :: "heap \<Rightarrow> slice \<Rightarrow> goval list" where
  "slice_read h s = take (s_len s) (arrays h (s_array s))"

text \<open>\<open>make([]interface{}, n)\<close> followed by \<open>copy\<close> of the \<open>n\<close> elements \<open>vs\<close> into it;
  \<open>make([]interface{}, 0)\<close> is \<open>make_slice []\<close>.\<close>

definition make_slice :: "goval list \<Rightarrow> heap \<Rightarrow> slice \<times> heap" where
  "make_slice vs h =
     (\<lparr>s_array = next_addr h, s_len = length vs, s_cap = length vs\<rparr>,
      h\<lparr>arrays := (arrays h)(next_addr h := vs), next_addr := Suc (next_addr h)\<rparr>)"

definition growslice_cap :: "nat \<Rightarrow> nat \<Rightarrow> nat" where
  "growslice_cap oldCap needed = max needed (2 * oldCap)"

text \<open>\<open>append(s, vs...)\<close>: in place when the capacity suffices, into a new array
  otherwise.\<close>

definition slice_append :: "slice \<Rightarrow> goval list \<Rightarrow> heap \<Rightarrow> slice \<times> heap" where
  "slice_append s vs h =
     (if s_len s + length vs \<le> s_cap s
      then (s\<lparr>s_len := s_len s + length vs\<rparr>,
            h\<lparr>arrays := (arrays h)(s_array s :=
                 take (s_len s) (arrays h (s_array s)) @ vs
                 @ drop (s_len s + length vs) (arrays h (s_array s)))\<rparr>)
      else (\<lparr>s_array = next_addr h, s_len = s_len s + length vs,
              s_cap = growslice_cap (s_cap s) (s_len s + length vs)\<rparr>,
            h\<lparr>arrays := (arrays h)(next_addr h :=
                 slice_read h s @ vs
                 @ replicate (growslice_cap (s_cap s) (s_len s + length vs)
                               - (s_len s + length vs)) VNil),
              next_addr := Suc (next_addr h)\<rparr>))"

text \<open>\<open>s[i] = v\<close>; out of range it panics.\<close>

definition slice_set :: "slice \<Rightarrow> nat \<Rightarrow> goval \<Rightarrow> heap \<Rightarrow> error + heap" where
  "slice_set s i v h =
     (if i < s_len s
      then Inr (h\<lparr>arrays := (arrays h)(s_array s := (arrays h (s_array s))[i := v])\<rparr>)
      else Inl (Panic ''index out of range''))"

subsection \<open>Builder state and the basic methods\<close>

text \<open>
  A \<open>Builder\<close> with the store that its argument slice lives in. Every method takes the
  pair and returns it updated; the mutex is not modelled (one caller at a time).
\<close>

record Builder =
  dialect :: Dialect
  buffer :: string
  args :: slice
  argPosition :: int
  sections :: "string \<rightharpoonup> nat"

type_synonym bstate = "heap \<times> Builder"

definition NewBuilder :: "Dialect \<Rightarrow> heap \<Rightarrow> bstate" where
  "NewBuilder d h =
     (case make_slice [] h of
        (s, h1) \<Rightarrow> (h1, \<lparr>dialect = d, buffer = [], args = s, argPosition = 0,
                          sections = Map.empty\<rparr>))"

fun Reset :: "bstate \<Rightarrow> bstate" where
  "Reset (h, b) =
     (h, b\<lparr>buffer := [], args := (args b)\<lparr>s_len := 0\<rparr>, argPosition := 0,
            sections := Map.empty\<rparr>)"

fun SQL :: "bstate \<Rightarrow> string" where
  "SQL (h, b) = buffer b"

text \<open>\<open>Args\<close> returns a new slice; the state changes by the allocation only.\<close>

fun Args :: "bstate \<Rightarrow> slice \<times> bstate" where
  "Args (h, b) = (case make_slice (slice_read h (args b)) h of (argsCopy, h1) \<Rightarrow> (argsCopy, (h1, b)))"

text \<open>The arguments of the builder, read from the store.\<close>

fun args_list :: "bstate \<Rightarrow> goval list" where
  "args_list (h, b) = slice_read h (args b)"

definition ToSQL :: "bstate \<Rightarrow> (string \<times> slice) \<times> bstate" where
  "ToSQL st = (case Args st of (a, st1) \<Rightarrow> ((SQL st, a), st1))"

fun Append :: "string \<Rightarrow> bstate \<Rightarrow> bstate" where
  "Append s (h, b) = (h, b\<lparr>buffer := buffer b @ s\<rparr>)"

fun AppendQuoted :: "string \<Rightarrow> bstate \<Rightarrow> bstate" where
  "AppendQuoted identifier (h, b) = (h, b\<lparr>buffer := buffer b @ d_Quote (dialect b) identifier\<rparr>)"

fun AppendPlaceholder :: "bstate \<Rightarrow> bstate" where
  "AppendPlaceholder (h, b) =
     (h, b\<lparr>argPosition := argPosition b + 1,
            buffer := buffer b @ d_Placeholder (dialect b) (argPosition b + 1)\<rparr>)"

text \<open>\<open>b.args = append(b.args, vs...)\<close>, the statement that five methods share.\<close>

fun append_args :: "goval list \<Rightarrow> bstate \<Rightarrow> bstate" where
  "append_args vs (h, b) = (case slice_append (args b) vs h of (s, h1) \<Rightarrow> (h1, b\<lparr>args := s\<rparr>))"

definition Arg :: "goval \<Rightarrow> bstate \<Rightarrow> bstate" where
  "Arg arg st = append_args [arg] st"

definition AppendWithArgs :: "string \<Rightarrow> goval list \<Rightarrow> bstate \<Rightarrow> bstate" where
  "AppendWithArgs sql vs st = append_args vs (Append sql st)"

text \<open>The loop of \<open>AppendWithPlaceholders\<close> over the parts of the fragment between question
  marks: a placeholder follows every part but the last.\<close>

fun write_parts :: "string list \<Rightarrow> bstate \<Rightarrow> bstate" where
  "write_parts [] st = st"
| "write_parts [part] st = Append part st"
| "write_parts (part # part2 # parts) st =
     write_parts (part2 # parts) (AppendPlaceholder (Append part st))"

definition AppendWithPlaceholders :: "string \<Rightarrow> goval list \<Rightarrow> bstate \<Rightarrow> bstate" where
  "AppendWithPlaceholders sql vs st =
     append_args vs (write_parts (Split sql (CHR ''?'')) st)"

fun MarkSection :: "string \<Rightarrow> bstate \<Rightarrow> bstate" where
  "MarkSection name (h, b) = (h, b\<lparr>sections := (sections b)(name \<mapsto> length (buffer b))\<rparr>)"

text \<open>\<open>ReplaceSection\<close> returns an error or nil, and the state it leaves; slicing the text
  beyond its end panics.\<close>

fun ReplaceSection :: "string \<Rightarrow> string \<Rightarrow> bstate \<Rightarrow> error option \<times> bstate" where
  "ReplaceSection name content (h, b) =
     (case sections b name of
        None \<Rightarrow> (Some (InternalError ''section not marked''), (h, b))
      | Some pos \<Rightarrow>
          (if length (buffer b) < pos
           then (Some (Panic ''slice bounds out of range''), (h, b))
           else (None, (h, b\<lparr>buffer := take pos (buffer b) @ content @ drop pos (buffer b)\<rparr>))))"

definition WithArgs :: "goval list \<Rightarrow> bstate \<Rightarrow> bstate" where
  "WithArgs vs st = append_args vs st"

definition Raw :: "string \<Rightarrow> bstate \<Rightarrow> bstate" where
  "Raw sql st = Append sql st"

definition RawWithArgs :: "string \<Rightarrow> goval list \<Rightarrow> bstate \<Rightarrow> bstate" where
  "RawWithArgs sql vs st = AppendWithArgs sql vs st"

subsection \<open>Statement methods\<close>

text \<open>The methods \<open>Set\<close>, \<open>Union\<close> and \<open>PrimaryKey\<close> carry the suffix \<open>_b\<close>, their names
  being taken.\<close>

definition hasKeyword :: "string \<Rightarrow> bstate \<Rightarrow> bool" where
  "hasKeyword kw st = Contains (map ToUpper (SQL st)) kw"

definition Where :: "string \<Rightarrow> goval list \<Rightarrow> bstate \<Rightarrow> bstate" where
  "Where condition vs st =
     (if hasKeyword '' WHERE '' st
      then AppendWithPlaceholders condition vs (Append '' AND '' st)
      else AppendWithPlaceholders condition vs (Append '' WHERE '' st))"

text \<open>The loops that write a list separated by commas; \<open>i\<close> is the loop index.\<close>

fun Select_loop :: "nat \<Rightarrow> string list \<Rightarrow> bstate \<Rightarrow> bstate" where
  "Select_loop i [] st = st"
| "Select_loop i (col # cols) st =
     Select_loop (Suc i) cols
       ((if Contains col '' '' \<or> Contains col ''('' then Append col else AppendQuoted col)
          (if 0 < i then Append '', '' st else st))"

definition Select :: "string list \<Rightarrow> bstate \<Rightarrow> bstate" where
  "Select columns st =
     (if length columns = 0 then Append ''*'' (Append ''SELECT '' (Reset st))
      else Select_loop 0 columns (Append ''SELECT '' (Reset st)))"

definition From :: "string \<Rightarrow> bstate \<Rightarrow> bstate" where
  "From table st = AppendQuoted table (Append '' FROM '' st)"

definition Join :: "string \<Rightarrow> string \<Rightarrow> string \<Rightarrow> bstate \<Rightarrow> bstate" where
  "Join joinType table condition st =
     Append condition (Append '' ON '' (AppendQuoted table (Append '' JOIN ''
       (Append joinType (Append '' '' st)))))"

text \<open>\<open>OrderBy\<close> and \<open>IndexColumns\<close> index the result of \<open>strings.Fields\<close> at 0, which panics
  when there is no field.\<close>

fun OrderBy_loop :: "nat \<Rightarrow> string list \<Rightarrow> bstate \<Rightarrow> error + bstate" where
  "OrderBy_loop i [] st = Inr st"
| "OrderBy_loop i (col # cols) st =
     (let st1 = (if 0 < i then Append '', '' st else st) in
      if HasSuffix col '' DESC'' \<or> HasSuffix col '' desc''
      then (case strings_Fields col of
              [] \<Rightarrow> Inl (Panic ''index out of range'')
            | p # ps \<Rightarrow> OrderBy_loop (Suc i) cols (Append '' DESC'' (AppendQuoted p st1)))
      else if HasSuffix col '' ASC'' \<or> HasSuffix col '' asc''
      then (case strings_Fields col of
              [] \<Rightarrow> Inl (Panic ''index out of range'')
            | p # ps \<Rightarrow> OrderBy_loop (Suc i) cols (Append '' ASC'' (AppendQuoted p st1)))
      else OrderBy_loop (Suc i) cols (AppendQuoted col st1))"

definition OrderBy :: "string list \<Rightarrow> bstate \<Rightarrow> error + bstate" where
  "OrderBy columns st =
     (if length columns = 0 then Inr st else OrderBy_loop 0 columns (Append '' ORDER BY '' st))"

fun GroupBy_loop :: "nat \<Rightarrow> string list \<Rightarrow> bstate \<Rightarrow> bstate" where
  "GroupBy_loop i [] st = st"
| "GroupBy_loop i (col # cols) st =
     GroupBy_loop (Suc i) cols
       ((if Contains col ''('' then Append col else AppendQuoted col)
          (if 0 < i then Append '', '' st else st))"

definition GroupBy :: "string list \<Rightarrow> bstate \<Rightarrow> bstate" where
  "GroupBy columns st =
     (if length columns = 0 then st else GroupBy_loop 0 columns (Append '' GROUP BY '' st))"

definition Having :: "string \<Rightarrow> goval list \<Rightarrow> bstate \<Rightarrow> bstate" where
  "Having condition vs st = AppendWithPlaceholders condition vs (Append '' HAVING '' st)"

definition Limit :: "int \<Rightarrow> bstate \<Rightarrow> bstate" where
  "Limit limit st = Append (d_LimitOffset (dialect (snd st)) limit (- 1)) st"

definition Offset :: "int \<Rightarrow> bstate \<Rightarrow> bstate" where
  "Offset offset st = Append (d_LimitOffset (dialect (snd st)) (- 1) offset) st"

definition LimitOffset :: "int \<Rightarrow> int \<Rightarrow> bstate \<Rightarrow> bstate" where
  "LimitOffset limit offset st = Append (d_LimitOffset (dialect (snd st)) limit offset) st"

definition Insert :: "string \<Rightarrow> bstate \<Rightarrow> bstate" where
  "Insert table st = AppendQuoted table (Append ''INSERT INTO '' (Reset st))"

text \<open>The loop shared, word for word, by \<open>Columns\<close>, \<open>PrimaryKey\<close> and \<open>UniqueKey\<close>.\<close>

fun quoted_list_loop :: "nat \<Rightarrow> string list \<Rightarrow> bstate \<Rightarrow> bstate" where
  "quoted_list_loop i [] st = st"
| "quoted_list_loop i (col # cols) st =
     quoted_list_loop (Suc i) cols (AppendQuoted col (if 0 < i then Append '', '' st else st))"

definition Columns :: "string list \<Rightarrow> bstate \<Rightarrow> bstate" where
  "Columns columns st = Append '')'' (quoted_list_loop 0 columns (Append '' ('' st))"

text \<open>The loop of \<open>Values\<close>, and of \<open>MultipleValues\<close> over one row: a placeholder and an
  argument per value.\<close>

fun Values_loop :: "nat \<Rightarrow> goval list \<Rightarrow> bstate \<Rightarrow> bstate" where
  "Values_loop i [] st = st"
| "Values_loop i (v # vs) st =
     Values_loop (Suc i) vs (Arg v (AppendPlaceholder (if 0 < i then Append '', '' st else st)))"

definition Values :: "goval list \<Rightarrow> bstate \<Rightarrow> bstate" where
  "Values valuesList st = Append '')'' (Values_loop 0 valuesList (Append '' VALUES ('' st))"

fun MultipleValues_loop :: "nat \<Rightarrow> goval list list \<Rightarrow> bstate \<Rightarrow> bstate" where
  "MultipleValues_loop i [] st = st"
| "MultipleValues_loop i (row # rows) st =
     MultipleValues_loop (Suc i) rows
       (Append '')'' (Values_loop 0 row (Append ''('' (if 0 < i then Append '', '' st else st))))"

definition MultipleValues :: "goval list list \<Rightarrow> bstate \<Rightarrow> bstate" where
  "MultipleValues rows st = MultipleValues_loop 0 rows (Append '' VALUES '' st)"

definition Update :: "string \<Rightarrow> bstate \<Rightarrow> bstate" where
  "Update table st = AppendQuoted table (Append ''UPDATE '' (Reset st))"

definition Set_b :: "string \<Rightarrow> goval \<Rightarrow> bstate \<Rightarrow> bstate" where
  "Set_b column v st =
     Arg v (AppendPlaceholder (Append '' = '' (AppendQuoted column
       (if \<not> hasKeyword '' SET '' st then Append '' SET '' st else Append '', '' st))))"

text \<open>\<open>SetMap\<close> ranges over a Go map; the association list gives the order in which the
  runtime visits it.\<close>

fun SetMap_loop :: "bool \<Rightarrow> (string \<times> goval) list \<Rightarrow> bstate \<Rightarrow> bstate" where
  "SetMap_loop first [] st = st"
| "SetMap_loop first ((column, v) # rest) st =
     SetMap_loop False rest
       (Arg v (AppendPlaceholder (Append '' = '' (AppendQuoted column
          (if \<not> first then Append '', '' st else st)))))"

definition SetMap :: "(string \<times> goval) list \<Rightarrow> bstate \<Rightarrow> bstate" where
  "SetMap vals st =
     SetMap_loop (\<not> Contains (SQL st) ''='') vals
       (if \<not> hasKeyword '' SET '' st then Append '' SET '' st else st)"

definition Delete :: "bstate \<Rightarrow> bstate" where
  "Delete st = Append ''DELETE'' (Reset st)"

definition DeleteFrom :: "string \<Rightarrow> bstate \<Rightarrow> bstate" where
  "DeleteFrom table st = AppendQuoted table (Append ''DELETE FROM '' (Reset st))"

definition Returning :: "string \<Rightarrow> bstate \<Rightarrow> bstate" where
  "Returning column st =
     (if HasPrefix (SQL st) ''INSERT''
      then Append (d_InsertReturning (dialect (snd st)) (SQL st) column) st
      else if d_SupportUpsert (dialect (snd st))
      then AppendQuoted column (Append '' RETURNING '' st)
      else st)"

definition Union_b :: "string \<Rightarrow> goval list \<Rightarrow> bstate \<Rightarrow> bstate" where
  "Union_b otherSQL otherArgs st = AppendWithArgs otherSQL otherArgs (Append '' UNION '' st)"

definition UnionAll :: "string \<Rightarrow> goval list \<Rightarrow> bstate \<Rightarrow> bstate" where
  "UnionAll otherSQL otherArgs st =
     AppendWithArgs otherSQL otherArgs (Append '' UNION ALL '' st)"

definition Count :: "string \<Rightarrow> bstate \<Rightarrow> bstate" where
  "Count column st =
     (if column = [] \<or> column = ''*'' then Append ''SELECT COUNT(*)'' (Reset st)
      else Append '')'' (AppendQuoted column (Append ''SELECT COUNT('' (Reset st))))"

definition CreateTable :: "string \<Rightarrow> bool \<Rightarrow> bstate \<Rightarrow> bstate" where
  "CreateTable table ifNotExists st =
     AppendQuoted table
       ((if ifNotExists then Append ''IF NOT EXISTS '' else id)
          (Append ''CREATE TABLE '' (Reset st)))"

fun constraints_loop :: "string list \<Rightarrow> bstate \<Rightarrow> bstate" where
  "constraints_loop [] st = st"
| "constraints_loop (c # cs) st = constraints_loop cs (Append c (Append '' '' st))"

definition AddColumn :: "string \<Rightarrow> string \<Rightarrow> string list \<Rightarrow> bstate \<Rightarrow> bstate" where
  "AddColumn column dataType constraints st =
     constraints_loop constraints
       (Append dataType (Append '' '' (AppendQuoted column
          (if Contains (SQL st) ''('' then Append '', '' st else Append '' ('' st))))"

definition PrimaryKey_b :: "string list \<Rightarrow> bstate \<Rightarrow> bstate" where
  "PrimaryKey_b columns st =
     Append '')'' (quoted_list_loop 0 columns (Append '', PRIMARY KEY ('' st))"

definition UniqueKey :: "string \<Rightarrow> string list \<Rightarrow> bstate \<Rightarrow> bstate" where
  "UniqueKey name columns st =
     Append '')'' (quoted_list_loop 0 columns
       (Append '' UNIQUE ('' (AppendQuoted name (Append '', CONSTRAINT '' st))))"

definition ForeignKey ::
  "string \<Rightarrow> string \<Rightarrow> string \<Rightarrow> string \<Rightarrow> string \<Rightarrow> string \<Rightarrow> bstate \<Rightarrow> bstate" where
  "ForeignKey name column refTable refColumn onDelete onUpdate st =
     (if onUpdate \<noteq> [] then (\<lambda>s. Append onUpdate (Append '' ON UPDATE '' s)) else id)
       ((if onDelete \<noteq> [] then (\<lambda>s. Append onDelete (Append '' ON DELETE '' s)) else id)
          (Append '')'' (AppendQuoted refColumn (Append ''('' (AppendQuoted refTable
             (Append '' REFERENCES '' (Append '')'' (AppendQuoted column
                (Append '' FOREIGN KEY ('' (AppendQuoted name
                   (Append '', CONSTRAINT '' st)))))))))))"

definition CloseParenthesis :: "bstate \<Rightarrow> bstate" where
  "CloseParenthesis st = Append '')'' st"

definition AlterTable :: "string \<Rightarrow> bstate \<Rightarrow> bstate" where
  "AlterTable table st = AppendQuoted table (Append ''ALTER TABLE '' (Reset st))"

definition AddColumnToTable :: "string \<Rightarrow> string \<Rightarrow> string list \<Rightarrow> bstate \<Rightarrow> bstate" where
  "AddColumnToTable column dataType constraints st =
     constraints_loop constraints
       (Append dataType (Append '' '' (AppendQuoted column (Append '' ADD COLUMN '' st))))"

definition RenameTable :: "string \<Rightarrow> bstate \<Rightarrow> bstate" where
  "RenameTable newName st = AppendQuoted newName (Append '' RENAME TO '' st)"

definition DropColumn :: "string \<Rightarrow> bstate \<Rightarrow> bstate" where
  "DropColumn column st = AppendQuoted column (Append '' DROP COLUMN '' st)"

definition CreateIndex :: "string \<Rightarrow> string \<Rightarrow> bool \<Rightarrow> bstate \<Rightarrow> bstate" where
  "CreateIndex name table unique st =
     AppendQuoted table (Append '' ON '' (AppendQuoted name (Append ''INDEX ''
       ((if unique then Append ''UNIQUE '' else id) (Append ''CREATE '' (Reset st))))))"

fun IndexColumns_loop :: "nat \<Rightarrow> string list \<Rightarrow> bstate \<Rightarrow> error + bstate" where
  "IndexColumns_loop i [] st = Inr st"
| "IndexColumns_loop i (col # cols) st =
     (case strings_Fields col of
        [] \<Rightarrow> Inl (Panic ''index out of range'')
      | p # ps \<Rightarrow>
          IndexColumns_loop (Suc i) cols
            ((if 1 < length (p # ps) then (\<lambda>s. Append (ps ! 0) (Append '' '' s)) else id)
               (AppendQuoted p (if 0 < i then Append '', '' st else st))))"

definition IndexColumns :: "string list \<Rightarrow> bstate \<Rightarrow> error + bstate" where
  "IndexColumns columns st =
     (case IndexColumns_loop 0 columns (Append '' ('' st) of
        Inl err \<Rightarrow> Inl err
      | Inr st1 \<Rightarrow> Inr (Append '')'' st1))"

definition DropTable :: "string \<Rightarrow> bool \<Rightarrow> bstate \<Rightarrow> bstate" where
  "DropTable table ifExists st =
     AppendQuoted table
       ((if ifExists then Append ''IF EXISTS '' else id) (Append ''DROP TABLE '' (Reset st)))"

definition DropIndex :: "string \<Rightarrow> bool \<Rightarrow> bstate \<Rightarrow> bstate" where
  "DropIndex name ifExists st =
     AppendQuoted name
       ((if ifExists then Append ''IF EXISTS '' else id) (Append ''DROP INDEX '' (Reset st)))"

definition BeginTransaction :: "bstate \<Rightarrow> bstate" where
  "BeginTransaction st = Append ''BEGIN'' (Reset st)"

definition CommitTransaction :: "bstate \<Rightarrow> bstate" where
  "CommitTransaction st = Append ''COMMIT'' (Reset st)"

definition RollbackTransaction :: "bstate \<Rightarrow> bstate" where
  "RollbackTransaction st = Append ''ROLLBACK'' (Reset st)"

text \<open>\<open>Subquery\<close>, \<open>Exists\<close> and \<open>NotExists\<close> read the text and the argument slice of another
  builder, which lives in the same store.\<close>

definition Subquery :: "Builder \<Rightarrow> string \<Rightarrow> bstate \<Rightarrow> bstate" where
  "Subquery subquery alias st =
     (let st1 = Append '')'' (Append (buffer subquery) (Append ''('' st));
          st2 = (if alias \<noteq> [] then AppendQuoted alias (Append '' AS '' st1) else st1)
      in append_args (slice_read (fst st2) (args subquery)) st2)"

definition Exists :: "Builder \<Rightarrow> bstate \<Rightarrow> bstate" where
  "Exists subquery st =
     (let st1 = Append '')'' (Append (buffer subquery) (Append ''EXISTS ('' st))
      in append_args (slice_read (fst st1) (args subquery)) st1)"

definition NotExists :: "Builder \<Rightarrow> bstate \<Rightarrow> bstate" where
  "NotExists subquery st =
     (let st1 = Append '')'' (Append (buffer subquery) (Append ''NOT EXISTS ('' st))
      in append_args (slice_read (fst st1) (args subquery)) st1)"

subsection \<open>Call sequences\<close>

text \<open>
  The public methods of \<open>Builder\<close> as a datatype of calls, in four groups (the basic
  methods, the clauses of a query, the statements that write, and the schema and
  transaction statements), and the state after a call. \<open>CSQL\<close> stands for the methods that
  only read (\<open>SQL\<close>, \<open>String\<close>, \<open>EscapeLike\<close>, \<open>QuotedTableColumn\<close>). A panic ends the sequence
  with \<open>Inl\<close>; an error that \<open>ReplaceSection\<close> returns does not.
\<close>

datatype core_call =
    CReset | CSQL | CArgs | CToSQL
  | CAppend string | CAppendQuoted string | CAppendPlaceholder | CArg goval
  | CAppendWithArgs string "goval list" | CAppendWithPlaceholders string "goval list"
  | CMarkSection string | CReplaceSection string string
  | CRaw string | CRawWithArgs string "goval list" | CWithArgs "goval list"

datatype query_call =
    CWhere string "goval list" | CSelect "string list" | CFrom string
  | CJoin string string string | COrderBy "string list" | CGroupBy "string list"
  | CHaving string "goval list" | CLimit int | COffset int | CLimitOffset int int
  | CUnion string "goval list" | CUnionAll string "goval list" | CCount string
  | CSubquery Builder string | CExists Builder | CNotExists Builder

datatype write_call =
    CInsert string | CColumns "string list" | CValues "goval list"
  | CMultipleValues "goval list list" | CUpdate string | CSet string goval
  | CSetMap "(string \<times> goval) list" | CDelete | CDeleteFrom string | CReturning string

datatype ddl_call =
    CCreateTable string bool | CAddColumn string string "string list"
  | CPrimaryKey "string list" | CUniqueKey string "string list"
  | CForeignKey string string string string string string | CCloseParenthesis
  | CAlterTable string | CAddColumnToTable string string "string list"
  | CRenameTable string | CDropColumn string | CCreateIndex string string bool
  | CIndexColumns "string list" | CDropTable string bool | CDropIndex string bool
  | CBeginTransaction | CCommitTransaction | CRollbackTransaction

datatype call = Core core_call | Query query_call | Write write_call | DDL ddl_call

definition call_ReplaceSection :: "string \<Rightarrow> string \<Rightarrow> bstate \<Rightarrow> error + bstate" where
  "call_ReplaceSection n c st =
     (case ReplaceSection n c st of
        (Some (Panic m), st1) \<Rightarrow> Inl (Panic m)
      | (r, st1) \<Rightarrow> Inr st1)"

primrec exec_core :: "core_call \<Rightarrow> bstate \<Rightarrow> error + bstate" where
  "exec_core CReset st = Inr (Reset st)"
| "exec_core CSQL st = Inr st"
| "exec_core CArgs st = Inr (snd (Args st))"
| "exec_core CToSQL st = Inr (snd (ToSQL st))"
| "exec_core (CAppend s) st = Inr (Append s st)"
| "exec_core (CAppendQuoted s) st = Inr (AppendQuoted s st)"
| "exec_core CAppendPlaceholder st = Inr (AppendPlaceholder st)"
| "exec_core (CArg v) st = Inr (Arg v st)"
| "exec_core (CAppendWithArgs s vs) st = Inr (AppendWithArgs s vs st)"
| "exec_core (CAppendWithPlaceholders s vs) st = Inr (AppendWithPlaceholders s vs st)"
| "exec_core (CMarkSection n) st = Inr (MarkSection n st)"
| "exec_core (CReplaceSection n c) st = call_ReplaceSection n c st"
| "exec_core (CRaw s) st = Inr (Raw s st)"
| "exec_core (CRawWithArgs s vs) st = Inr (RawWithArgs s vs st)"
| "exec_core (CWithArgs vs) st = Inr (WithArgs vs st)"

primrec exec_query :: "query_call \<Rightarrow> bstate \<Rightarrow> error + bstate" where
  "exec_query (CWhere c vs) st = Inr (Where c vs st)"
| "exec_query (CSelect cols) st = Inr (Select cols st)"
| "exec_query (CFrom t) st = Inr (From t st)"
| "exec_query (CJoin j t c) st = Inr (Join j t c st)"
| "exec_query (COrderBy cols) st = OrderBy cols st"
| "exec_query (CGroupBy cols) st = Inr (GroupBy cols st)"
| "exec_query (CHaving c vs) st = Inr (Having c vs st)"
| "exec_query (CLimit l) st = Inr (Limit l st)"
| "exec_query (COffset off) st = Inr (Offset off st)"
| "exec_query (CLimitOffset l off) st = Inr (LimitOffset l off st)"
| "exec_query (CUnion s vs) st = Inr (Union_b s vs st)"
| "exec_query (CUnionAll s vs) st = Inr (UnionAll s vs st)"
| "exec_query (CCount c) st = Inr (Count c st)"
| "exec_query (CSubquery sub alias) st = Inr (Subquery sub alias st)"
| "exec_query (CExists sub) st = Inr (Exists sub st)"
| "exec_query (CNotExists sub) st = Inr (NotExists sub st)"

primrec exec_write :: "write_call \<Rightarrow> bstate \<Rightarrow> error + bstate" where
  "exec_write (CInsert t) st = Inr (Insert t st)"
| "exec_write (CColumns cols) st = Inr (Columns cols st)"
| "exec_write (CValues vs) st = Inr (Values vs st)"
| "exec_write (CMultipleValues rows) st = Inr (MultipleValues rows st)"
| "exec_write (CUpdate t) st = Inr (Update t st)"
| "exec_write (CSet c v) st = Inr (Set_b c v st)"
| "exec_write (CSetMap vals) st = Inr (SetMap vals st)"
| "exec_write CDelete st = Inr (Delete st)"
| "exec_write (CDeleteFrom t) st = Inr (DeleteFrom t st)"
| "exec_write (CReturning c) st = Inr (Returning c st)"

primrec exec_ddl :: "ddl_call \<Rightarrow> bstate \<Rightarrow> error + bstate" where
  "exec_ddl (CCreateTable t e) st = Inr (CreateTable t e st)"
| "exec_ddl (CAddColumn c d cs) st = Inr (AddColumn c d cs st)"
| "exec_ddl (CPrimaryKey cols) st = Inr (PrimaryKey_b cols st)"
| "exec_ddl (CUniqueKey n cols) st = Inr (UniqueKey n cols st)"
| "exec_ddl (CForeignKey n c rt rc od ou) st = Inr (ForeignKey n c rt rc od ou st)"
| "exec_ddl CCloseParenthesis st = Inr (CloseParenthesis st)"
| "exec_ddl (CAlterTable t) st = Inr (AlterTable t st)"
| "exec_ddl (CAddColumnToTable c d cs) st = Inr (AddColumnToTable c d cs st)"
| "exec_ddl (CRenameTable n) st = Inr (RenameTable n st)"
| "exec_ddl (CDropColumn c) st = Inr (DropColumn c st)"
| "exec_ddl (CCreateIndex n t u) st = Inr (CreateIndex n t u st)"
| "exec_ddl (CIndexColumns cols) st = IndexColumns cols st"
| "exec_ddl (CDropTable t e) st = Inr (DropTable t e st)"
| "exec_ddl (CDropIndex n e) st = Inr (DropIndex n e st)"
| "exec_ddl CBeginTransaction st = Inr (BeginTransaction st)"
| "exec_ddl CCommitTransaction st = Inr (CommitTransaction st)"
| "exec_ddl CRollbackTransaction st = Inr (RollbackTransaction st)"

primrec exec :: "call \<Rightarrow> bstate \<Rightarrow> error + bstate" where
  "exec (Core c) st = exec_core c st"
| "exec (Query c) st = exec_query c st"
| "exec (Write c) st = exec_write c st"
| "exec (DDL c) st = exec_ddl c st"

fun run :: "call list \<Rightarrow> bstate \<Rightarrow> error + bstate" where
  "run [] st = Inr st"
| "run (c # cs) st = (case exec c st of Inl err \<Rightarrow> Inl err | Inr st1 \<Rightarrow> run cs st1)"


text \<open>
  What the properties below are about: the placeholder position, the length of the
  argument slice, the section marks, and the well-formedness of the argument slice in the
  store (its length within its capacity, its array as long as the capacity, and
  allocated).
\<close>

definition pos :: "bstate \<Rightarrow> int" where
  "pos st = argPosition (snd st)"

definition nargs :: "bstate \<Rightarrow> nat" where
  "nargs st = s_len (args (snd st))"

definition secs :: "bstate \<Rightarrow> string \<rightharpoonup> nat" where
  "secs st = sections (snd st)"

definition wf_args :: "bstate \<Rightarrow> bool" where
  "wf_args st = (s_len (args (snd st)) \<le> s_cap (args (snd st))
     \<and> length (arrays (fst st) (s_array (args (snd st)))) = s_cap (args (snd st))
     \<and> s_array (args (snd st)) < next_addr (fst st))"






text \<open>
  What a caller can do to a slice it holds: assign an element, append (and keep the
  result), and reslice within the capacity.
\<close>

datatype slice_op = SetIndex nat goval | AppendTo "goval list" | Reslice nat

fun mutate :: "slice_op list \<Rightarrow> slice \<times> heap \<Rightarrow> error + slice \<times> heap" where
  "mutate [] (s, h) = Inr (s, h)"
| "mutate (SetIndex i v # ops) (s, h) =
     (case slice_set s i v h of Inl err \<Rightarrow> Inl err | Inr h1 \<Rightarrow> mutate ops (s, h1))"
| "mutate (AppendTo vs # ops) (s, h) = mutate ops (slice_append s vs h)"
| "mutate (Reslice n # ops) (s, h) =
     (if n \<le> s_cap s then mutate ops (s\<lparr>s_len := n\<rparr>, h)
      else Inl (Panic ''slice bounds out of range''))"


section \<open>Example models\<close>

text \<open>
  \<open>ex_Outer\<close> embeds \<open>ex_Inner\<close> first and then declares a field of its own with the name
  of one of the embedded type's fields:
  \<^verbatim>\<open>type Inner struct { Name string `origami:"column:inner_name;primary_key"` }\<close> and
  \<^verbatim>\<open>type Outer struct { Inner; Name string }\<close>.
\<close>

definition ex_Inner :: gotype where
  "ex_Inner =
     TStruct ''Inner''
       [SField ''Name'' [] False [(''origami'', ''column:inner_name;primary_key'')] TString]"

definition ex_Outer :: gotype where
  "ex_Outer =
     TStruct ''Outer'' [SField ''Inner'' [] True [] ex_Inner, SField ''Name'' [] False [] TString]"

definition ex_outer :: goval where
  "ex_outer = VStruct ex_Outer [VStruct ex_Inner [VString ''a''], VString ''b'']"

text \<open>The same two members in the other order:
  \<^verbatim>\<open>type Outer2 struct { Name string; Inner }\<close>.\<close>

definition ex_Outer2 :: gotype where
  "ex_Outer2 =
     TStruct ''Outer2'' [SField ''Name'' [] False [] TString, SField ''Inner'' [] True [] ex_Inner]"

definition ex_outer2 :: goval where
  "ex_outer2 = VStruct ex_Outer2 [VString ''b'', VStruct ex_Inner [VString ''a'']]"

text \<open>\<^verbatim>\<open>type Account struct { Secret string `origami:"writeonly"`;
  Created string `origami:"readonly"`; Email string }\<close>\<close>

definition ex_Account :: gotype where
  "ex_Account =
     TStruct ''Account''
       [SField ''Secret'' [] False [(''origami'', ''writeonly'')] TString,
        SField ''Created'' [] False [(''origami'', ''readonly'')] TString,
        SField ''Email'' [] False [] TString]"

definition ex_account :: goval where
  "ex_account = VStruct ex_Account [VString ''s3cr3t'', VString ''today'', VString ''a@b.c'']"

definition empty_state :: rstate where
  "empty_state = \<lparr>objs = [], fieldCache = []\<rparr>"

text \<open>A set of conversion rules to run \<open>SetFieldValues\<close> with: only identical types are
  assignable or convertible.\<close>

definition identical_types_only :: reflect_rules where
  "identical_types_only =
     \<lparr>AssignableTo = (\<lambda>src dst. src = dst), ConvertibleTo = (\<lambda>src dst. src = dst),
      Convert = (\<lambda>v t. v)\<rparr>"

text \<open>The store and the cache after the first extraction of \<open>ex_Outer\<close> from the empty
  state, and the \<open>ModelInfo\<close> of \<open>ex_Outer\<close> with given field maps and key list.\<close>

definition ex_outer_state :: rstate where
  "ex_outer_state =
     \<lparr>objs =
        [\<lparr>Name = ''Name'', DBName = ''inner_name'', Type = TString, Index = [0, 0],
          IsAnonymous = False, IsPrimaryKey = True, IsAutoIncrement = False, IsUnique = False,
          IsIndex = False, IsNotNull = False,
          RawTag = [(''origami'', ''column:inner_name;primary_key'')],
          TagSettings = [(''column'', ''inner_name''), (''primary_key'', [])],
          IsIgnored = False, IsReadOnly = False, IsWriteOnly = False\<rparr>,
         \<lparr>Name = ''Name'', DBName = ''name'', Type = TString, Index = [1],
          IsAnonymous = False, IsPrimaryKey = False, IsAutoIncrement = False, IsUnique = False,
          IsIndex = False, IsNotNull = False, RawTag = [], TagSettings = [],
          IsIgnored = False, IsReadOnly = False, IsWriteOnly = False\<rparr>],
      fieldCache = [(ex_Inner, [(''Name'', 0)]), (ex_Outer, [(''Name'', 1)])]\<rparr>"

definition ex_outer_info ::
  "(string \<times> nat) list \<Rightarrow> (string \<times> nat) list \<Rightarrow> string list \<Rightarrow> ModelInfo" where
  "ex_outer_info fs cs pk =
     \<lparr>mi_Name = ''Outer'', mi_Type = ex_Outer, mi_DBName = ''outer'', Fields = fs,
      FieldsByDBName = cs, PrimaryKey = pk, AutoIncrement = [], Indexes = [],
      UniqueIndexes = [], mi_TagSettings = []\<rparr>"



text \<open>The query of claim C6 on a new Postgres builder allocated in the store \<open>h\<close>, a
  sequence of calls, and a sequence of operations of a caller on a slice.\<close>

definition ex_query :: "heap \<Rightarrow> bstate" where
  "ex_query h =
     Where ''age > ?'' [VInt 18] (Where ''id = ?'' [VInt 5] (From ''users'' (Select []
       (NewBuilder PostgresDialect h))))"

definition ex_calls :: "call list" where
  "ex_calls = [Query (CSelect []), Query (CFrom ''users''), Query (CWhere ''id = ?'' [VInt 5]),
               Core (CMarkSection ''tail''), Query (CWhere ''age > ?'' [VInt 18])]"


definition ex_ops :: "slice_op list" where
  "ex_ops = [SetIndex 0 (VInt 99), AppendTo [VInt 7], SetIndex 2 VNil, Reslice 1]"


section \<open>Properties of the naming converter and the tag parser\<close>

lemmas string_eval =
  IsLower_def IsUpper_def ToLower_def ToUpper_def upper_letters_def lower_letters_def
  IsSpace_def TrimSpace_def ToSnakeCase_def HasTagOption_def ParseTagSettings_def
  SplitN2_def Let_def

lemma ToSnakeCase_examples:
  "ToSnakeCase ''HTTPServer'' = ''http_server''" "ToSnakeCase ''UserID'' = ''user_id''"
  "ToSnakeCase ''aBCd'' = ''a_b_cd''" "ToSnakeCase ''XABc'' = ''xa_bc''"
  by (simp_all add: string_eval)

text \<open>
  C5. \<open>ToSnakeCase\<close> is claimed to put an underscore before the last letter of every run of
  two or more uppercase letters that a lowercase letter follows. The test that does it
  also asks for \<open>i > 2\<close>, so a run of exactly two uppercase letters at the start of the
  identifier is not split: \<open>ABc\<close> becomes \<open>abc\<close>, not \<open>a_bc\<close>, while the same run one
  position later is split (\<open>XABc\<close> becomes \<open>xa_bc\<close>).
\<close>

theorem ToSnakeCase_leading_pair_not_split:
  "ToSnakeCase ''ABc'' = ''abc'' \<and> ToSnakeCase ''ABc'' \<noteq> ''a_bc''
   \<and> ToSnakeCase ''XABc'' = ''xa_bc''"
  by (simp add: string_eval)

lemma Split_nonempty: "Split s c \<noteq> []"
  by (induction s) (auto simp: Let_def)

lemma Split_no_sep: "seg \<in> set (Split s c) \<Longrightarrow> c \<notin> set seg"
proof (induction s arbitrary: seg)
  case Nil
  then show ?case by simp
next
  case (Cons a s)
  obtain h t where ht: "Split s c = h # t"
    using Split_nonempty[of s c] by (cases "Split s c") auto
  show ?case using Cons ht by (auto simp: Let_def split: if_splits)
qed

lemma Split_Join: "strings_Join (Split s c) [c] = s"
proof (induction s)
  case Nil
  then show ?case by simp
next
  case (Cons a s)
  obtain h t where ht: "Split s c = h # t"
    using Split_nonempty[of s c] by (cases "Split s c") auto
  show ?case using Cons ht by (cases t) (auto simp: Let_def)
qed

lemma Split_no_sep_id: "c \<notin> set s \<Longrightarrow> Split s c = [s]"
  by (induction s) (auto simp: Let_def)

lemma HasTagOption_loop_iff:
  "HasTagOption_loop parts opt \<longleftrightarrow> (\<exists>seg\<in>set parts. TrimSpace seg = opt)"
  by (induction parts) auto

lemma TrimSpace_subset: "set (TrimSpace s) \<subseteq> set s"
  unfolding TrimSpace_def by (auto dest!: set_dropWhileD)

lemma dropWhile_keeps: "c \<in> set xs \<Longrightarrow> \<not> P c \<Longrightarrow> c \<in> set (dropWhile P xs)"
  by (induction xs) auto

lemma TrimSpace_keeps: "c \<in> set s \<Longrightarrow> \<not> IsSpace c \<Longrightarrow> c \<in> set (TrimSpace s)"
  unfolding TrimSpace_def by (simp add: dropWhile_keeps)

lemma HasTagOption_valued_segment:
  assumes "CHR '':'' \<notin> set opt" and "CHR '';'' \<notin> set v"
  shows "\<not> HasTagOption (opt @ '':'' @ v) opt"
proof (cases "CHR '';'' \<in> set opt")
  case True
  show ?thesis
  proof
    assume "HasTagOption (opt @ '':'' @ v) opt"
    then obtain seg where seg: "seg \<in> set (Split (opt @ '':'' @ v) (CHR '';''))"
      and trim: "TrimSpace seg = opt"
      by (auto simp: HasTagOption_def HasTagOption_loop_iff)
    have "CHR '';'' \<notin> set seg" using seg by (rule Split_no_sep)
    then show False using True trim TrimSpace_subset[of seg] by auto
  qed
next
  case False
  have "Split (opt @ '':'' @ v) (CHR '';'') = [opt @ '':'' @ v]"
    using False assms by (intro Split_no_sep_id) auto
  moreover have "CHR '':'' \<in> set (TrimSpace (opt @ '':'' @ v))"
    by (rule TrimSpace_keeps) (auto simp: IsSpace_def)
  ultimately show ?thesis using assms by (auto simp: HasTagOption_def)
qed

text \<open>
  C9. \<open>HasTagOption tag opt\<close> holds exactly when one of the segments of \<open>tag\<close> between
  semicolons is, once trimmed of surrounding white space, equal to \<open>opt\<close>. Hence an option
  written with a value, \<open>opt:v\<close>, is not the flag \<open>opt\<close>, and a field annotated
  \<open>primary_key:true\<close> is not marked as primary key by the tag processing of
  \<open>ExtractFields\<close>.
\<close>

theorem HasTagOption_exact_segment:
  "(HasTagOption tag opt \<longleftrightarrow> (\<exists>seg\<in>set (Split tag (CHR '';'')). TrimSpace seg = opt))
   \<and> (CHR '':'' \<notin> set opt \<and> CHR '';'' \<notin> set v \<longrightarrow> \<not> HasTagOption (opt @ '':'' @ v) opt)
   \<and> \<not> IsPrimaryKey (apply_tag ''primary_key:true'' fi)"
proof -
  have "\<not> HasTagOption ''primary_key:true'' ''primary_key''"
    using HasTagOption_valued_segment[of "''primary_key''" "''true''"] by simp
  moreover have "\<not> HasTagOption ''primary_key:true'' ''primaryKey''"
    by (simp add: string_eval)
  ultimately have "\<not> IsPrimaryKey (apply_tag ''primary_key:true'' fi)"
    by (simp add: apply_tag_def Let_def split: option.splits)
  then show ?thesis
    using HasTagOption_valued_segment[of opt v]
    by (simp add: HasTagOption_def HasTagOption_loop_iff)
qed

theorem HasTagOption_exact_segment_witness:
  "HasTagOption ''unique; primary_key '' ''primary_key''
   \<and> (\<exists>seg\<in>set (Split ''unique; primary_key '' (CHR '';'')). TrimSpace seg = ''primary_key'')
   \<and> CHR '':'' \<notin> set ''primary_key'' \<and> CHR '';'' \<notin> set ''true''
   \<and> \<not> HasTagOption (''primary_key'' @ '':'' @ ''true'') ''primary_key''"
proof -
  have seg: "\<exists>seg\<in>set (Split ''unique; primary_key '' (CHR '';'')). TrimSpace seg = ''primary_key''"
    by (simp add: string_eval)
  have hyp: "CHR '':'' \<notin> set ''primary_key'' \<and> CHR '';'' \<notin> set ''true''"
    by simp
  show ?thesis
    using seg hyp
      HasTagOption_exact_segment[of "''unique; primary_key ''" "''primary_key''" "''true''"]
      HasTagOption_exact_segment[of "''x''" "''primary_key''" "''true''"]
    by blast
qed

section \<open>Properties of the metadata engine\<close>

lemmas reflect_eval =
  ExtractFields_def ExtractFieldsT.simps ExtractModelInfo_def struct_level_tag_def
  FieldByName_def new_FieldInfo_def apply_tag_def alloc_def TagKey_def lookup_or_empty_def
  add_descriptor_def add_field_def add_primary_key_def add_auto_increment_def add_index_def
  add_unique_index_def index_name_def

lemma IndirectType_idem [simp]: "IndirectType (IndirectType t) = IndirectType t"
  by (induction t rule: IndirectType.induct) auto

subsection \<open>Extraction returns on every struct type\<close>

lemma ExtractFieldsT_returns:
  "is_struct (IndirectType t) \<longrightarrow> (\<exists>r st'. ExtractFieldsT t prefix st = (Inr r, st'))"
  "\<exists>r st'. ExtractFields_loop fs i prefix sF fM st = (Inr r, st')"
proof (induction t prefix st and fs i prefix sF fM st
       rule: ExtractFieldsT_ExtractFields_loop.induct)
  case (1 t prefix st)
  show ?case
  proof
    assume s: "is_struct (IndirectType t)"
    show "\<exists>r st'. ExtractFieldsT t prefix st = (Inr r, st')"
    proof (cases "map_of (fieldCache st) (IndirectType t)")
      case None
      from 1[OF refl _ None] s obtain r st' where
        "ExtractFields_loop (struct_fields (IndirectType t)) 0 prefix [] [] st = (Inr r, st')"
        by auto
      then show ?thesis using s None by (cases r) (simp add: ExtractFieldsT.simps Let_def)
    next
      case (Some c)
      then show ?thesis
        using s by (simp add: ExtractFieldsT.simps Let_def split: prod.splits)
    qed
  qed
next
  case (2 i prefix sF fM st)
  show ?case by simp
next
  case (3 sf rest i prefix sF fM st)
  show ?case
  proof (cases "sf_PkgPath sf \<noteq> [] \<and> \<not> sf_Anonymous sf")
    case True
    then show ?thesis using 3(1) by simp
  next
    case a: False
    show ?thesis
    proof (cases "sf_Anonymous sf \<and> is_struct (IndirectType (sf_Type sf))")
      case b: True
      show ?thesis
      proof (cases "sf_PkgPath sf \<noteq> []")
        case True
        then show ?thesis using 3(2)[OF a b] by (simp add: a b)
      next
        case c: False
        let ?p = "(if prefix = [] then sf_Name sf else prefix @ ''.'' @ sf_Name sf)"
        from 3(3)[OF a b c refl] b obtain r st1 where
          r: "ExtractFieldsT (IndirectType (sf_Type sf)) ?p st = (Inr r, st1)"
          by auto
        obtain sF1 fM1 st2 where m: "merge_embedded r i sF fM st1 = (sF1, fM1, st2)"
          by (cases "merge_embedded r i sF fM st1") auto
        from 3(4)[OF a b c refl r[symmetric] refl m[symmetric] refl]
        show ?thesis by (simp add: a b c r m Let_def)
      qed
    next
      case b: False
      let ?fi0 = "new_FieldInfo sf i"
      let ?fi = "(case map_of (sf_Tag sf) TagKey of Some tag \<Rightarrow> apply_tag tag ?fi0
                  | None \<Rightarrow> ?fi0)"
      obtain p st1 where al: "alloc ?fi st = (p, st1)" by (cases "alloc ?fi st") auto
      from 3(5)[OF a b refl refl al[symmetric]]
      show ?thesis by (simp add: a b al Let_def)
    qed
  qed
qed

lemma ExtractModelInfo_returns:
  assumes "TypeOf model = Inr t" and "is_struct (IndirectType t)"
  shows "\<exists>mi st1. ExtractModelInfo model st = (Inr mi, st1)"
proof -
  obtain r st' where "ExtractFieldsT t [] st = (Inr r, st')"
    using ExtractFieldsT_returns(1)[of t "[]" st] assms(2) by auto
  then show ?thesis
    using assms by (simp add: ExtractModelInfo_def ExtractFields_def Let_def)
qed

subsection \<open>The example models, extracted\<close>

lemma ex_outer_type:
  "TypeOf ex_outer = Inr ex_Outer" "IndirectType ex_Outer = ex_Outer" "is_struct ex_Outer"
  "FieldByName ex_Outer ''origami'' = None" "type_Name ex_Outer = ''Outer''"
  by (simp_all add: ex_outer_def ex_Outer_def FieldByName_def)

lemma ex_outer_cold:
  "ExtractFields ex_outer [] empty_state = (Inr [0, 1], ex_outer_state)"
  unfolding ex_outer_state_def ex_outer_def ex_Outer_def ex_Inner_def empty_state_def
  by (simp add: string_eval reflect_eval)

lemma ex_outer_warm:
  "ExtractFields ex_outer [] ex_outer_state =
     (Inr [2], ex_outer_state\<lparr>objs := objs ex_outer_state @ [objs ex_outer_state ! 1]\<rparr>)"
  unfolding ex_outer_state_def ex_outer_def ex_Outer_def ex_Inner_def empty_state_def
  by (simp add: string_eval reflect_eval)

lemma ex_outer_info_cold:
  "ExtractModelInfo ex_outer empty_state =
     (Inr (ex_outer_info [(''Name'', 1)] [(''inner_name'', 0), (''name'', 1)] [''Name'']),
      ex_outer_state)"
  apply (simp add: ExtractModelInfo_def ex_outer_type struct_level_tag_def ex_outer_cold
      string_eval)
  apply (simp add: ex_outer_state_def ex_outer_info_def reflect_eval)
  done

lemma ex_outer_info_warm:
  "ExtractModelInfo ex_outer ex_outer_state =
     (Inr (ex_outer_info [(''Name'', 2)] [(''name'', 2)] []),
      ex_outer_state\<lparr>objs := objs ex_outer_state @ [objs ex_outer_state ! 1]\<rparr>)"
  apply (simp add: ExtractModelInfo_def ex_outer_type struct_level_tag_def ex_outer_warm
      string_eval)
  apply (simp add: ex_outer_state_def ex_outer_info_def reflect_eval)
  done

lemma ex_account_type:
  "TypeOf ex_account = Inr ex_Account" "IndirectType ex_Account = ex_Account"
  "is_struct ex_Account" "FieldByName ex_Account ''origami'' = None"
  "type_Name ex_Account = ''Account''"
  by (simp_all add: ex_account_def ex_Account_def FieldByName_def)



text \<open>With the outer field declared first, the embedded descriptor is skipped: one
  descriptor is returned, the outer one.\<close>

lemma ExtractFields_outer_first_drops_embedded:
  "fst (ExtractFields ex_outer2 [] empty_state) = Inr [0]
   \<and> map (\<lambda>f. (Name f, DBName f, Index f, IsPrimaryKey f))
        (map (\<lambda>p. objs (snd (ExtractFields ex_outer2 [] empty_state)) ! p) [0])
       = [(''Name'', ''name'', [0], False)]"
  unfolding ex_outer2_def ex_Outer2_def ex_Inner_def empty_state_def
  by (simp add: string_eval reflect_eval)

text \<open>
  C1. When a struct declares a field \<open>N\<close> and embeds a struct with a field \<open>N\<close>, the
  flattened descriptors are claimed to hold the outer field's descriptor only, whichever
  of the two comes first. With the embedded struct first (\<open>ex_Outer\<close>), \<open>ExtractFields\<close> on
  an empty cache returns two descriptors named \<open>Name\<close>: the embedded one (column
  \<open>inner_name\<close>, index path \<open>[0, 0]\<close>) is not dropped, and \<open>ExtractModelInfo\<close> keeps it under
  its column name and takes the primary key from it.
\<close>

theorem ExtractFields_embedded_first_keeps_both:
  "fst (ExtractFields ex_outer [] empty_state) = Inr [0, 1]
   \<and> map (\<lambda>f. (Name f, DBName f, Index f, IsPrimaryKey f))
        (objs (snd (ExtractFields ex_outer [] empty_state)))
       = [(''Name'', ''inner_name'', [0, 0], True), (''Name'', ''name'', [1], False)]
   \<and> fst (ExtractModelInfo ex_outer empty_state)
       = Inr (ex_outer_info [(''Name'', 1)] [(''inner_name'', 0), (''name'', 1)] [''Name''])"
  by (simp add: ex_outer_cold ex_outer_info_cold) (simp add: ex_outer_state_def)

text \<open>
  C7. Extraction on a cold cache and extraction served from the cache are claimed to give
  the same fields, columns and keys. For \<open>ex_Outer\<close> the first \<open>ExtractModelInfo\<close> gives the
  columns \<open>inner_name\<close> and \<open>name\<close> and the primary key \<open>Name\<close>; the second, on the state
  that the first left, gives the column \<open>name\<close> only and no primary key.
\<close>

theorem ExtractModelInfo_cold_warm_differ:
  "fst (ExtractModelInfo ex_outer empty_state)
     = Inr (ex_outer_info [(''Name'', 1)] [(''inner_name'', 0), (''name'', 1)] [''Name''])
   \<and> fst (ExtractModelInfo ex_outer (snd (ExtractModelInfo ex_outer empty_state)))
     = Inr (ex_outer_info [(''Name'', 2)] [(''name'', 2)] [])
   \<and> fst (ExtractModelInfo ex_outer empty_state)
     \<noteq> fst (ExtractModelInfo ex_outer (snd (ExtractModelInfo ex_outer empty_state)))"
  by (simp add: ex_outer_info_cold ex_outer_info_warm ex_outer_info_def)

subsection \<open>Writing values\<close>

lemma ValueOf_not_addressable: "ValueOf model = Inr v \<Longrightarrow> \<not> CanAddr v"
  by (auto simp: ValueOf_def CanAddr_def split: if_splits)

lemma SetFieldValues_never_succeeds: "fst (fst (SetFieldValues R model vals st)) \<noteq> None"
  by (auto simp: SetFieldValues_def ValueOf_not_addressable split: prod.splits sum.splits)

text \<open>
  C3. \<open>SetFieldValues\<close> is claimed to skip an unknown column without error when the record
  is passed by reference, and to fail as not addressable exactly when it is not. It tests
  \<open>CanAddr\<close> on \<open>reflect.ValueOf(model)\<close> itself, before following the pointer, and no
  value made by \<open>reflect.ValueOf\<close> is addressable: for every struct and every pointer to a
  struct the call ends with the error "model must be addressable (a pointer)" and the
  model as it was, whatever the mapping holds.
\<close>

theorem SetFieldValues_rejects_every_model:
  assumes "TypeOf model = Inr t" and "is_struct (IndirectType t)"
  shows "fst (SetFieldValues R model vals st)
           = (Some (InternalError ''model must be addressable (a pointer)''), model)"
proof -
  obtain mi st1 where "ExtractModelInfo model st = (Inr mi, st1)"
    using ExtractModelInfo_returns[OF assms] by blast
  moreover have "model \<noteq> VNil" using assms(1) by auto
  ultimately show ?thesis
    by (simp add: SetFieldValues_def ValueOf_def CanAddr_def)
qed

theorem SetFieldValues_rejects_every_model_witness:
  "TypeOf (VPtr ex_Account (Some ex_account)) = Inr (TPtr ex_Account)
   \<and> is_struct (IndirectType (TPtr ex_Account))
   \<and> fst (SetFieldValues identical_types_only (VPtr ex_Account (Some ex_account))
            [(''no_such_column'', VInt 1)] empty_state)
       = (Some (InternalError ''model must be addressable (a pointer)''),
          VPtr ex_Account (Some ex_account))"
proof -
  have t: "TypeOf (VPtr ex_Account (Some ex_account)) = Inr (TPtr ex_Account)" by simp
  have s: "is_struct (IndirectType (TPtr ex_Account))" by (simp add: ex_account_type)
  show ?thesis
    using t s SetFieldValues_rejects_every_model[OF t s, of identical_types_only
        "[(''no_such_column'', VInt 1)]" empty_state]
    by simp
qed

subsection \<open>Reading values\<close>







section \<open>Properties of the SQL builder\<close>

subsection \<open>What each method does to the position, the arguments and the marks\<close>

lemmas proj_defs = pos_def nargs_def secs_def wf_args_def

lemma Append_proj [simp]:
  "pos (Append s st) = pos st" "nargs (Append s st) = nargs st" "secs (Append s st) = secs st"
  "wf_args (Append s st) = wf_args st" "fst (Append s st) = fst st"
  by (cases st; simp add: proj_defs)+

lemma AppendQuoted_proj [simp]:
  "pos (AppendQuoted s st) = pos st" "nargs (AppendQuoted s st) = nargs st"
  "secs (AppendQuoted s st) = secs st" "wf_args (AppendQuoted s st) = wf_args st"
  "fst (AppendQuoted s st) = fst st"
  by (cases st; simp add: proj_defs)+

lemma AppendPlaceholder_proj [simp]:
  "pos (AppendPlaceholder st) = pos st + 1" "nargs (AppendPlaceholder st) = nargs st"
  "secs (AppendPlaceholder st) = secs st" "wf_args (AppendPlaceholder st) = wf_args st"
  "fst (AppendPlaceholder st) = fst st"
  by (cases st; simp add: proj_defs)+

lemma slice_append_len: "s_len (fst (slice_append s vs h)) = s_len s + length vs"
  by (simp add: slice_append_def)

lemma append_args_proj [simp]:
  "pos (append_args vs st) = pos st" "nargs (append_args vs st) = nargs st + length vs"
  "secs (append_args vs st) = secs st"
  by (cases st; simp add: proj_defs slice_append_def split: prod.splits)+

lemma append_args_wf [simp]: "wf_args st \<Longrightarrow> wf_args (append_args vs st)"
  by (cases st) (auto simp: wf_args_def slice_append_def growslice_cap_def slice_read_def
      split: prod.splits)

lemma append_args_list: "wf_args st \<Longrightarrow> args_list (append_args vs st) = args_list st @ vs"
  by (cases st) (auto simp: wf_args_def slice_append_def slice_read_def split: prod.splits)

lemma Reset_proj [simp]:
  "pos (Reset st) = 0" "nargs (Reset st) = 0" "secs (Reset st) = Map.empty"
  "wf_args st \<Longrightarrow> wf_args (Reset st)" "fst (Reset st) = fst st"
  by (cases st; simp add: proj_defs)+

lemma MarkSection_proj [simp]:
  "pos (MarkSection n st) = pos st" "nargs (MarkSection n st) = nargs st"
  "secs (MarkSection n st) = (secs st)(n \<mapsto> length (SQL st))" "wf_args (MarkSection n st) = wf_args st"
  by (cases st; simp add: proj_defs)+

lemma Args_proj [simp]:
  "pos (snd (Args st)) = pos st" "nargs (snd (Args st)) = nargs st"
  "secs (snd (Args st)) = secs st" "wf_args st \<Longrightarrow> wf_args (snd (Args st))"
  by (cases st; auto simp: proj_defs make_slice_def split: prod.splits)+

lemma ReplaceSection_proj [simp]:
  "pos (snd (ReplaceSection n c st)) = pos st" "nargs (snd (ReplaceSection n c st)) = nargs st"
  "secs (snd (ReplaceSection n c st)) = secs st" "wf_args (snd (ReplaceSection n c st)) = wf_args st"
  by (cases st; simp add: proj_defs split: option.splits)+

lemma NewBuilder_proj [simp]:
  "pos (NewBuilder d h) = 0" "nargs (NewBuilder d h) = 0" "secs (NewBuilder d h) = Map.empty"
  "wf_args (NewBuilder d h)"
  by (simp_all add: NewBuilder_def make_slice_def proj_defs)

lemma call_ReplaceSection_Inr:
  "call_ReplaceSection n c st = Inr st' \<Longrightarrow> st' = snd (ReplaceSection n c st)"
  by (auto simp: call_ReplaceSection_def split: prod.splits option.splits error.splits)

declare Append.simps [simp del] AppendQuoted.simps [simp del] AppendPlaceholder.simps [simp del]
  append_args.simps [simp del] Reset.simps [simp del] MarkSection.simps [simp del]
  Args.simps [simp del] ReplaceSection.simps [simp del]

lemma write_parts_proj [simp]:
  "pos (write_parts parts st) = pos st + int (length parts - 1)"
  "nargs (write_parts parts st) = nargs st" "secs (write_parts parts st) = secs st"
  "wf_args (write_parts parts st) = wf_args st"
  by (induction parts st rule: write_parts.induct; simp)+

lemma Select_loop_proj [simp]:
  "pos (Select_loop i cols st) = pos st" "nargs (Select_loop i cols st) = nargs st"
  "secs (Select_loop i cols st) = secs st" "wf_args (Select_loop i cols st) = wf_args st"
  by (induction i cols st rule: Select_loop.induct; simp)+

lemma GroupBy_loop_proj [simp]:
  "pos (GroupBy_loop i cols st) = pos st" "nargs (GroupBy_loop i cols st) = nargs st"
  "secs (GroupBy_loop i cols st) = secs st" "wf_args (GroupBy_loop i cols st) = wf_args st"
  by (induction i cols st rule: GroupBy_loop.induct; simp)+

lemma quoted_list_loop_proj [simp]:
  "pos (quoted_list_loop i cols st) = pos st" "nargs (quoted_list_loop i cols st) = nargs st"
  "secs (quoted_list_loop i cols st) = secs st" "wf_args (quoted_list_loop i cols st) = wf_args st"
  by (induction i cols st rule: quoted_list_loop.induct; simp)+

lemma constraints_loop_proj [simp]:
  "pos (constraints_loop cs st) = pos st" "nargs (constraints_loop cs st) = nargs st"
  "secs (constraints_loop cs st) = secs st" "wf_args (constraints_loop cs st) = wf_args st"
  by (induction cs st rule: constraints_loop.induct; simp)+

lemma Values_loop_proj [simp]:
  "pos (Values_loop i vs st) = pos st + int (length vs)"
  "nargs (Values_loop i vs st) = nargs st + length vs"
  "secs (Values_loop i vs st) = secs st"
  by (induction i vs st rule: Values_loop.induct; simp add: Arg_def)+

lemma Values_loop_wf [simp]: "wf_args st \<Longrightarrow> wf_args (Values_loop i vs st)"
  by (induction i vs st rule: Values_loop.induct) (simp_all add: Arg_def)

lemma MultipleValues_loop_proj [simp]:
  "pos (MultipleValues_loop i rows st) = pos st + int (sum_list (map length rows))"
  "nargs (MultipleValues_loop i rows st) = nargs st + sum_list (map length rows)"
  "secs (MultipleValues_loop i rows st) = secs st"
  by (induction i rows st rule: MultipleValues_loop.induct; simp)+

lemma MultipleValues_loop_wf [simp]: "wf_args st \<Longrightarrow> wf_args (MultipleValues_loop i rows st)"
  by (induction i rows st rule: MultipleValues_loop.induct) simp_all

lemma SetMap_loop_proj [simp]:
  "pos (SetMap_loop f vals st) = pos st + int (length vals)"
  "nargs (SetMap_loop f vals st) = nargs st + length vals"
  "secs (SetMap_loop f vals st) = secs st"
  by (induction f vals st rule: SetMap_loop.induct; simp add: Arg_def)+

lemma SetMap_loop_wf [simp]: "wf_args st \<Longrightarrow> wf_args (SetMap_loop f vals st)"
  by (induction f vals st rule: SetMap_loop.induct) (simp_all add: Arg_def)

lemma OrderBy_loop_proj:
  "OrderBy_loop i cols st = Inr st' \<Longrightarrow>
     pos st' = pos st \<and> nargs st' = nargs st \<and> secs st' = secs st \<and> wf_args st' = wf_args st"
  by (induction i cols st rule: OrderBy_loop.induct)
     (auto simp: Let_def split: if_splits list.splits)

lemma IndexColumns_loop_proj:
  "IndexColumns_loop i cols st = Inr st' \<Longrightarrow>
     pos st' = pos st \<and> nargs st' = nargs st \<and> secs st' = secs st \<and> wf_args st' = wf_args st"
  by (induction i cols st rule: IndexColumns_loop.induct)
     (auto simp: Let_def split: if_splits list.splits)


lemmas builder_defs =
  Arg_def AppendWithArgs_def AppendWithPlaceholders_def WithArgs_def Raw_def RawWithArgs_def
  Where_def Select_def From_def Join_def GroupBy_def Having_def Limit_def Offset_def
  LimitOffset_def Insert_def Columns_def Values_def MultipleValues_def Update_def Set_b_def
  SetMap_def Delete_def DeleteFrom_def Returning_def Union_b_def UnionAll_def Count_def
  CreateTable_def AddColumn_def PrimaryKey_b_def UniqueKey_def ForeignKey_def
  CloseParenthesis_def AlterTable_def AddColumnToTable_def RenameTable_def DropColumn_def
  CreateIndex_def DropTable_def DropIndex_def BeginTransaction_def CommitTransaction_def
  RollbackTransaction_def Subquery_def Exists_def NotExists_def

lemma snd_ToSQL [simp]: "snd (ToSQL st) = snd (Args st)"
  by (simp add: ToSQL_def split: prod.splits)

lemma OrderBy_proj:
  "OrderBy cols st = Inr st' \<Longrightarrow>
     pos st' = pos st \<and> nargs st' = nargs st \<and> secs st' = secs st \<and> wf_args st' = wf_args st"
  by (auto simp: OrderBy_def dest!: OrderBy_loop_proj split: if_splits)

lemma IndexColumns_proj:
  "IndexColumns cols st = Inr st' \<Longrightarrow>
     pos st' = pos st \<and> nargs st' = nargs st \<and> secs st' = secs st \<and> wf_args st' = wf_args st"
  by (auto simp: IndexColumns_def dest!: IndexColumns_loop_proj split: sum.splits)

lemma exec_core_wf: "wf_args st \<Longrightarrow> exec_core c st = Inr st' \<Longrightarrow> wf_args st'"
  by (cases c) (auto simp: builder_defs Let_def dest!: call_ReplaceSection_Inr)

lemma exec_query_wf: "wf_args st \<Longrightarrow> exec_query c st = Inr st' \<Longrightarrow> wf_args st'"
  by (cases c) (auto simp: builder_defs Let_def dest: OrderBy_proj)

lemma exec_write_wf: "wf_args st \<Longrightarrow> exec_write c st = Inr st' \<Longrightarrow> wf_args st'"
  by (cases c) (auto simp: builder_defs Let_def)

lemma exec_ddl_wf: "wf_args st \<Longrightarrow> exec_ddl c st = Inr st' \<Longrightarrow> wf_args st'"
  by (cases c) (auto simp: builder_defs Let_def dest: IndexColumns_proj)

lemma exec_wf: "wf_args st \<Longrightarrow> exec c st = Inr st' \<Longrightarrow> wf_args st'"
  by (cases c) (auto dest: exec_core_wf exec_query_wf exec_write_wf exec_ddl_wf)

lemma run_wf: "wf_args st \<Longrightarrow> run cs st = Inr st' \<Longrightarrow> wf_args st'"
  by (induction cs arbitrary: st) (auto dest: exec_wf split: sum.splits)

lemma exec_core_secs:
  "secs st n = None \<Longrightarrow> c \<noteq> CMarkSection n \<Longrightarrow> exec_core c st = Inr st' \<Longrightarrow> secs st' n = None"
  by (cases c) (auto simp: builder_defs Let_def dest!: call_ReplaceSection_Inr)

lemma exec_query_secs: "secs st n = None \<Longrightarrow> exec_query c st = Inr st' \<Longrightarrow> secs st' n = None"
  by (cases c) (auto simp: builder_defs Let_def dest: OrderBy_proj)

lemma exec_write_secs: "secs st n = None \<Longrightarrow> exec_write c st = Inr st' \<Longrightarrow> secs st' n = None"
  by (cases c) (auto simp: builder_defs Let_def)

lemma exec_ddl_secs: "secs st n = None \<Longrightarrow> exec_ddl c st = Inr st' \<Longrightarrow> secs st' n = None"
  by (cases c) (auto simp: builder_defs Let_def dest: IndexColumns_proj)

lemma exec_secs:
  "secs st n = None \<Longrightarrow> c \<noteq> Core (CMarkSection n) \<Longrightarrow> exec c st = Inr st' \<Longrightarrow> secs st' n = None"
  by (cases c) (auto dest: exec_core_secs exec_query_secs exec_write_secs exec_ddl_secs)







subsection \<open>Evaluation\<close>

lemma nat_decimal_digit: "n < 10 \<Longrightarrow> nat_decimal n = [digit_char n]"
  by (simp add: nat_decimal_def)

lemmas builder_eval =
  builder_defs Append.simps AppendQuoted.simps AppendPlaceholder.simps append_args.simps
  Reset.simps MarkSection.simps Args.simps ReplaceSection.simps NewBuilder_def make_slice_def
  slice_append_def slice_read_def growslice_cap_def hasKeyword_def PostgresDialect_def
  quote_with_def Sprintf_d_def nat_decimal_digit digit_char_def empty_heap_def
  strings_Count_def ToSQL_def


lemma ex_query_sql:
  "SQL (ex_query h)
     = ''SELECT * FROM '' @ [CHR 0x22] @ ''users'' @ [CHR 0x22] @ '' WHERE id = $1 AND age > $2''"
  by (simp add: ex_query_def builder_eval string_eval)

lemma ex_query_args: "args_list (ex_query h) = [VInt 5, VInt 18]"
  by (simp add: ex_query_def builder_eval string_eval)

lemma ex_query_tosql:
  "slice_read (fst (snd (ToSQL (ex_query h)))) (snd (fst (ToSQL (ex_query h))))
     = [VInt 5, VInt 18]"
  by (simp add: ex_query_def builder_eval string_eval)

lemma ex_query_count:
  "strings_Count (SQL (ex_query h)) ''WHERE'' = 1"
  "strings_Count (SQL (ex_query h)) ''AND'' = 1"
  "strings_Index (SQL (ex_query h)) ''$1'' = Some 33"
  "strings_Index (SQL (ex_query h)) ''$2'' = Some 46"
  unfolding ex_query_sql by (simp_all add: strings_Count_def)

text \<open>
  C6. On a new Postgres builder, \<open>Select().From("users").Where("id = ?", 5).Where("age > ?",
  18)\<close> gives the text \<open>SELECT * FROM "users" WHERE id = $1 AND age > $2\<close>: the keyword
  \<open>WHERE\<close> occurs once and \<open>AND\<close> once, \<open>$1\<close> comes before \<open>$2\<close>, and \<open>ToSQL\<close> returns that text
  with a slice that holds the arguments 5 and 18.
\<close>

theorem postgres_two_where_calls:
  "let st = Where ''age > ?'' [VInt 18] (Where ''id = ?'' [VInt 5] (From ''users'' (Select []
              (NewBuilder PostgresDialect h))))
   in SQL st = ''SELECT * FROM '' @ [CHR 0x22] @ ''users'' @ [CHR 0x22]
                @ '' WHERE id = $1 AND age > $2''
      \<and> strings_Count (SQL st) ''WHERE'' = 1 \<and> strings_Count (SQL st) ''AND'' = 1
      \<and> strings_Index (SQL st) ''$1'' = Some 33 \<and> strings_Index (SQL st) ''$2'' = Some 46
      \<and> fst (fst (ToSQL st)) = SQL st
      \<and> slice_read (fst (snd (ToSQL st))) (snd (fst (ToSQL st))) = [VInt 5, VInt 18]
      \<and> args_list st = [VInt 5, VInt 18]"
  unfolding Let_def ex_query_def[symmetric]
  using ex_query_sql[of h] ex_query_args[of h] ex_query_tosql[of h] ex_query_count[of h]
  by (simp add: ToSQL_def split: prod.splits)



lemma run_secs:
  "secs st n = None \<Longrightarrow> Core (CMarkSection n) \<notin> set cs \<Longrightarrow> run cs st = Inr st'
     \<Longrightarrow> secs st' n = None"
proof (induction cs arbitrary: st)
  case Nil
  then show ?case by simp
next
  case (Cons c cs)
  then obtain st1 where e: "exec c st = Inr st1" and r: "run cs st1 = Inr st'"
    by (auto split: sum.splits)
  have "secs st1 n = None" using exec_secs[OF Cons.prems(1) _ e] Cons.prems(2) by auto
  then show ?case using Cons.IH[OF _ _ r] Cons.prems(2) by auto
qed

subsection \<open>Placeholders and arguments\<close>



lemma ex_calls_run:
  "run ex_calls (NewBuilder PostgresDialect empty_heap)
     = Inr (Where ''age > ?'' [VInt 18] (MarkSection ''tail'' (Where ''id = ?'' [VInt 5]
              (From ''users'' (Select [] (NewBuilder PostgresDialect empty_heap))))))"
  by (simp add: ex_calls_def)


subsection \<open>Sections\<close>

text \<open>
  C8. After any sequence of calls on a new builder in which \<open>MarkSection\<close> was never called
  with the name, \<open>ReplaceSection\<close> with that name returns the error "section not marked"
  and leaves the builder, its text and its arguments, as it was.
\<close>

theorem ReplaceSection_unmarked:
  assumes "run cs (NewBuilder d h) = Inr st" and "Core (CMarkSection name) \<notin> set cs"
  shows "ReplaceSection name content st = (Some (InternalError ''section not marked''), st)"
proof -
  have "secs st name = None" using run_secs[OF _ assms(2) assms(1)] by simp
  then show ?thesis by (cases st) (simp add: secs_def ReplaceSection.simps)
qed

theorem ReplaceSection_unmarked_witness:
  "run ex_calls (NewBuilder PostgresDialect empty_heap)
       = Inr (Where ''age > ?'' [VInt 18] (MarkSection ''tail'' (Where ''id = ?'' [VInt 5]
              (From ''users'' (Select [] (NewBuilder PostgresDialect empty_heap))))))
   \<and> Core (CMarkSection ''head'') \<notin> set ex_calls
   \<and> ReplaceSection ''head'' ''/* hint */''
        (Where ''age > ?'' [VInt 18] (MarkSection ''tail'' (Where ''id = ?'' [VInt 5]
              (From ''users'' (Select [] (NewBuilder PostgresDialect empty_heap))))))
      = (Some (InternalError ''section not marked''),
         Where ''age > ?'' [VInt 18] (MarkSection ''tail'' (Where ''id = ?'' [VInt 5]
              (From ''users'' (Select [] (NewBuilder PostgresDialect empty_heap))))))"
proof -
  have n: "Core (CMarkSection ''head'') \<notin> set ex_calls" by (simp add: ex_calls_def)
  show ?thesis
    using n ex_calls_run ReplaceSection_unmarked[OF ex_calls_run n, of "''/* hint */''"] by simp
qed

subsection \<open>The slice that Args returns\<close>

lemma take_min_length: "take (min (length xs) n) xs = take n xs"
  by (simp add: min_def)

lemma mutate_frame:
  assumes "mutate ops (s, h) = Inr (s2, h2)"
      and "s_array s \<noteq> a" and "a < next_addr h"
  shows "arrays h2 a = arrays h a \<and> a < next_addr h2"
  using assms
proof (induction ops "(s, h)" arbitrary: s h rule: mutate.induct)
  case (1 s h)
  then show ?case by simp
next
  case (2 i v ops s h)
  then obtain h1 where h1: "slice_set s i v h = Inr h1" and m: "mutate ops (s, h1) = Inr (s2, h2)"
    by (auto split: sum.splits)
  have "arrays h1 a = arrays h a" "next_addr h1 = next_addr h"
    using h1 2(3) by (auto simp: slice_set_def split: if_splits)
  then show ?case using 2(1)[OF h1 m 2(3)] 2(4) by simp
next
  case (3 vs ops s h)
  obtain s1 h1 where sa: "slice_append s vs h = (s1, h1)" by (cases "slice_append s vs h")
  have f: "arrays h1 a = arrays h a" "a < next_addr h1" "s_array s1 \<noteq> a"
    using sa 3(3,4) by (auto simp: slice_append_def split: if_splits)
  have m: "mutate ops (s1, h1) = Inr (s2, h2)" using 3(2) sa by simp
  show ?case using 3(1)[OF sa m f(3) f(2)] f(1) by simp
next
  case (4 n ops s h)
  then have le: "n \<le> s_cap s" and m: "mutate ops (s\<lparr>s_len := n\<rparr>, h) = Inr (s2, h2)"
    by (auto split: if_splits)
  show ?case using 4(1)[OF le m] 4(3,4) by simp
qed

text \<open>
  C10. For a builder reached by any sequence of calls, the slice that \<open>Args\<close> returns holds
  the builder's arguments in an array of its own, and \<open>ToSQL\<close> returns that same slice
  with the text: whatever the caller then does to the slice (assigning elements,
  appending, reslicing), the builder's argument list is as before, and so is what a later
  call of \<open>Args\<close> returns.
\<close>

theorem Args_returns_copy:
  assumes "run cs (NewBuilder d h0) = Inr st"
      and "mutate ops (fst (Args st), fst (snd (Args st))) = Inr (s2, h2)"
  shows "slice_read (fst (snd (Args st))) (fst (Args st)) = args_list st
         \<and> ToSQL st = ((SQL st, fst (Args st)), snd (Args st))
         \<and> snd (snd (Args st)) = snd st
         \<and> args_list (h2, snd st) = args_list st
         \<and> slice_read (fst (snd (Args (h2, snd st)))) (fst (Args (h2, snd st))) = args_list st"
proof -
  obtain h b where st: "st = (h, b)" by (cases st)
  have wf_args: "wf_args (h, b)" using run_wf[OF _ assms(1)] st by simp
  let ?a = "s_array (args b)"
  have a: "?a < next_addr h" using wf_args by (simp add: wf_args_def)
  have A: "Args (h, b) = (\<lparr>s_array = next_addr h, s_len = length (slice_read h (args b)),
                            s_cap = length (slice_read h (args b))\<rparr>,
                          (h\<lparr>arrays := (arrays h)(next_addr h := slice_read h (args b)),
                              next_addr := Suc (next_addr h)\<rparr>, b))"
    by (simp add: Args.simps make_slice_def)
  have c1: "slice_read (fst (snd (Args st))) (fst (Args st)) = args_list st"
    by (simp add: st A) (simp add: slice_read_def take_min_length)
  have c2: "snd (snd (Args st)) = snd st" by (simp add: st A)
  have m: "mutate ops (\<lparr>s_array = next_addr h, s_len = length (slice_read h (args b)),
                            s_cap = length (slice_read h (args b))\<rparr>,
                       h\<lparr>arrays := (arrays h)(next_addr h := slice_read h (args b)),
                              next_addr := Suc (next_addr h)\<rparr>) = Inr (s2, h2)"
    using assms(2) by (simp add: st A)
  have "arrays h2 ?a = arrays (h\<lparr>arrays := (arrays h)(next_addr h := slice_read h (args b)),
                              next_addr := Suc (next_addr h)\<rparr>) ?a"
    using mutate_frame[OF m, of ?a] a by simp
  then have same: "arrays h2 ?a = arrays h ?a" using a by simp
  have c3: "args_list (h2, snd st) = args_list st"
    by (simp add: st slice_read_def same)
  have c4: "slice_read (fst (snd (Args (h2, snd st)))) (fst (Args (h2, snd st))) = args_list st"
    by (simp add: st Args.simps make_slice_def) (simp add: slice_read_def same take_min_length)
  have c0: "ToSQL st = ((SQL st, fst (Args st)), snd (Args st))"
    by (simp add: ToSQL_def split: prod.splits)
  show ?thesis using c0 c1 c2 c3 c4 by blast
qed

theorem Args_returns_copy_witness:
  "run ex_calls (NewBuilder PostgresDialect empty_heap)
       = Inr (Where ''age > ?'' [VInt 18] (MarkSection ''tail'' (Where ''id = ?'' [VInt 5]
              (From ''users'' (Select [] (NewBuilder PostgresDialect empty_heap))))))
   \<and> (\<exists>s2 h2. mutate ex_ops
         (fst (Args (Where ''age > ?'' [VInt 18] (MarkSection ''tail'' (Where ''id = ?'' [VInt 5]
              (From ''users'' (Select [] (NewBuilder PostgresDialect empty_heap))))))),
          fst (snd (Args (Where ''age > ?'' [VInt 18] (MarkSection ''tail'' (Where ''id = ?'' [VInt 5]
              (From ''users'' (Select [] (NewBuilder PostgresDialect empty_heap)))))))))
         = Inr (s2, h2)
       \<and> slice_read h2 s2 = [VInt 99]
       \<and> args_list (h2, snd (Where ''age > ?'' [VInt 18] (MarkSection ''tail'' (Where ''id = ?'' [VInt 5]
              (From ''users'' (Select [] (NewBuilder PostgresDialect empty_heap)))))))
          = [VInt 5, VInt 18])"
proof -
  let ?st = "Where ''age > ?'' [VInt 18] (MarkSection ''tail'' (Where ''id = ?'' [VInt 5]
              (From ''users'' (Select [] (NewBuilder PostgresDialect empty_heap)))))"
  have al: "args_list ?st = [VInt 5, VInt 18]"
    by (simp add: builder_eval string_eval)
  have "\<exists>s2 h2. mutate ex_ops (fst (Args ?st), fst (snd (Args ?st))) = Inr (s2, h2)
          \<and> slice_read h2 s2 = [VInt 99]"
    by (simp add: ex_ops_def builder_eval string_eval slice_set_def)
  then obtain s2 h2 where m: "mutate ex_ops (fst (Args ?st), fst (snd (Args ?st))) = Inr (s2, h2)"
    and r: "slice_read h2 s2 = [VInt 99]" by blast
  from Args_returns_copy[OF ex_calls_run m] al
  have "args_list (h2, snd ?st) = [VInt 5, VInt 18]" by simp
  then show ?thesis using ex_calls_run m r by blast
qed

end
